theory Spec2Isabelle
  imports Main "HOL-Library.Sublist"
begin

section \<open>Python values, exceptions and the outside world\<close>

text \<open>
  The program (\<^verbatim>\<open>src/main.py\<close>, class \<^verbatim>\<open>CoinGeckoAPI\<close>) talks to an HTTP
  API and to SQLite files. Decoded JSON documents and the values read back from SQLite are
  dynamically typed Python values. JSON numbers are modelled as Python integers; floating
  point arithmetic is left out of the embedding.
\<close>

datatype pyval =
    PNone
  | PBool bool
  | PInt int
  | PStr string
  | PList "pyval list"
  | PTuple "pyval list"
  | PDict "(string \<times> pyval) list"

text \<open>The exceptions that the code of \<^verbatim>\<open>main.py\<close> can meet.\<close>

datatype py_error =
    KeyError
  | TypeError
  | ValueError
  | IndexError
  | OverflowError
  | OSError
  | RequestException     \<comment> \<open>\<^verbatim>\<open>requests.exceptions.RequestException\<close>\<close>
  | JSONDecodeError      \<comment> \<open>\<^verbatim>\<open>requests.exceptions.JSONDecodeError\<close>\<close>
  | IntegrityError       \<comment> \<open>\<^verbatim>\<open>sqlite3.IntegrityError\<close>\<close>
  | OperationalError     \<comment> \<open>\<^verbatim>\<open>sqlite3.OperationalError\<close>\<close>
  | ProgrammingError     \<comment> \<open>\<^verbatim>\<open>sqlite3.ProgrammingError\<close>\<close>

text \<open>
  What \<^verbatim>\<open>except requests.exceptions.RequestException\<close> catches: the class itself
  and its subclass for a body that is not JSON.
\<close>

definition request_failure :: "py_error \<Rightarrow> bool" where
  "request_failure e = (e = RequestException \<or> e = JSONDecodeError)"

text \<open>
  A call either returns a value, or raises, or is still waiting for an HTTP answer when
  the scripted answers of the server are used up (\<open>Pending\<close>).
\<close>

datatype 'a outcome = Returns 'a | Raises py_error | Pending

subsection \<open>Subscripts, truth values, iteration\<close>

datatype pykey = KStr string | KInt int

text \<open>
  \<^verbatim>\<open>xs[i]\<close> on a sequence of length n: the positions 0 to n - 1 are read from the
  front, the positions -n to -1 from the end, any other position raises IndexError.
\<close>

definition seq_index :: "'a list \<Rightarrow> int \<Rightarrow> py_error + 'a" where
  "seq_index xs i =
     (if 0 \<le> i \<and> i < int (length xs) then Inr (xs ! nat i)
      else if - int (length xs) \<le> i \<and> i < 0 then Inr (xs ! nat (int (length xs) + i))
      else Inl IndexError)"

text \<open>
  \<^verbatim>\<open>v[k]\<close>. A dictionary decoded from JSON has string keys only. A list, tuple or
  string subscripted with a string raises TypeError, as does any subscript of None, a
  bool or an int.
\<close>

fun getitem :: "pyval \<Rightarrow> pykey \<Rightarrow> py_error + pyval" where
  "getitem (PDict kvs) (KStr k) = (case map_of kvs k of None \<Rightarrow> Inl KeyError | Some v \<Rightarrow> Inr v)"
| "getitem (PDict kvs) (KInt i) = Inl KeyError"
| "getitem (PList xs) (KInt i) = seq_index xs i"
| "getitem (PTuple xs) (KInt i) = seq_index xs i"
| "getitem (PStr s) (KInt i) = seq_index (map (\<lambda>c. PStr [c]) s) i"
| "getitem v k = Inl TypeError"

text \<open>Python truthiness, as tested by \<^verbatim>\<open>not v\<close> and \<^verbatim>\<open>if v\<close>.\<close>

fun truthy :: "pyval \<Rightarrow> bool" where
  "truthy PNone = False"
| "truthy (PBool b) = b"
| "truthy (PInt i) = (i \<noteq> 0)"
| "truthy (PStr s) = (s \<noteq> [])"
| "truthy (PList xs) = (xs \<noteq> [])"
| "truthy (PTuple xs) = (xs \<noteq> [])"
| "truthy (PDict kvs) = (kvs \<noteq> [])"

text \<open>
  \<^verbatim>\<open>for x in v\<close>: the elements visited, or TypeError when v is not iterable. A
  dictionary gives its keys, each once, in the order of their first occurrence.
\<close>

fun py_iter :: "pyval \<Rightarrow> py_error + pyval list" where
  "py_iter (PList xs) = Inr xs"
| "py_iter (PTuple xs) = Inr xs"
| "py_iter (PDict kvs) = Inr (map (\<lambda>k. PStr k) (rev (remdups (rev (map fst kvs)))))"
| "py_iter (PStr s) = Inr (map (\<lambda>c. PStr [c]) s)"
| "py_iter v = Inl TypeError"

text \<open>Python \<^verbatim>\<open>==\<close>: a bool compares as the integer 0 or 1.\<close>

fun as_int :: "pyval \<Rightarrow> int option" where
  "as_int (PInt i) = Some i"
| "as_int (PBool b) = Some (if b then 1 else 0)"
| "as_int v = None"

definition py_eq :: "pyval \<Rightarrow> pyval \<Rightarrow> bool" where
  "py_eq a b = (case (as_int a, as_int b) of (Some i, Some j) \<Rightarrow> i = j | _ \<Rightarrow> a = b)"

fun hashable :: "pyval \<Rightarrow> bool" where
  "hashable (PList xs) = False"
| "hashable (PDict kvs) = False"
| "hashable (PTuple xs) = list_all hashable xs"
| "hashable v = True"

text \<open>\<^verbatim>\<open>x not in s\<close> for a set s: hashing an unhashable x raises TypeError.\<close>

definition not_in_set :: "pyval \<Rightarrow> pyval list \<Rightarrow> py_error + bool" where
  "not_in_set x s = (if hashable x then Inr (\<not> list_ex (py_eq x) s) else Inl TypeError)"

subsection \<open>\<^verbatim>\<open>int(...)\<close> of a header value, \<^verbatim>\<open>str(...)\<close> of an integer\<close>

text \<open>
  The characters that \<^verbatim>\<open>int\<close> strips from both ends of a string: tab, line feed,
  vertical tab, form feed, carriage return, space, and the two Latin-1 spaces U+0085 and
  U+00A0. The separators U+001C to U+001F are not among them.
\<close>

definition is_space :: "char \<Rightarrow> bool" where
  "is_space c = (of_char c \<in> {9, 10, 11, 12, 13, 32, 133, 160 :: nat})"

definition is_digit :: "char \<Rightarrow> bool" where
  "is_digit c = (48 \<le> (of_char c :: nat) \<and> (of_char c :: nat) \<le> 57)"

definition digit_val :: "char \<Rightarrow> nat" where
  "digit_val c = of_char c - 48"

text \<open>
  Digits with single underscores between them, read left to right with an accumulator;
  the flag says whether the previous character was a digit.
\<close>

fun digits_value :: "bool \<Rightarrow> nat \<Rightarrow> string \<Rightarrow> nat option" where
  "digits_value prev acc [] = (if prev then Some acc else None)"
| "digits_value prev acc (c # cs) =
     (if is_digit c then digits_value True (10 * acc + digit_val c) cs
      else if c = CHR ''_'' \<and> prev then digits_value False acc cs
      else None)"

definition strip :: "string \<Rightarrow> string" where
  "strip s = rev (dropWhile is_space (rev (dropWhile is_space s)))"

text \<open>
  \<^verbatim>\<open>int(s)\<close> for a string: surrounding whitespace, an optional sign, decimal digits.
  The interpreter (CPython 3.11) refuses a string with more than 4300 digits, leading
  zeros counted, sign, underscores and whitespace not counted. Every failure is a
  ValueError.
\<close>

definition signed_digits :: "string \<Rightarrow> int option" where
  "signed_digits s =
     (case s of
        [] \<Rightarrow> None
      | c # cs \<Rightarrow>
          if c = CHR ''-'' then map_option (\<lambda>n. - int n) (digits_value False 0 cs)
          else if c = CHR ''+'' then map_option int (digits_value False 0 cs)
          else map_option int (digits_value False 0 (c # cs)))"

definition int_of_str :: "string \<Rightarrow> py_error + int" where
  "int_of_str s =
     (if 4300 < length (filter is_digit s) then Inl ValueError
      else case signed_digits (strip s) of None \<Rightarrow> Inl ValueError | Some i \<Rightarrow> Inr i)"

function nat_digits :: "nat \<Rightarrow> string" where
  "nat_digits n =
     (if n < 10 then [char_of (48 + n)] else nat_digits (n div 10) @ [char_of (48 + n mod 10)])"
  by pat_completeness auto
termination
  by (relation "measure id") auto

declare nat_digits.simps [simp del]

definition str_of_int :: "int \<Rightarrow> string" where
  "str_of_int i = (if i < 0 then CHR ''-'' # nat_digits (nat (- i)) else nat_digits (nat i))"

subsection \<open>The world: SQLite files, the clock, the HTTP server, the log\<close>

text \<open>A value stored in a table cell, as Python reads it back.\<close>

datatype cell = CNull | CInt int | CText string

fun cell_value :: "cell \<Rightarrow> pyval" where
  "cell_value CNull = PNone"
| "cell_value (CInt i) = PInt i"
| "cell_value (CText s) = PStr s"

text \<open>
  Binding a Python value to a \<^verbatim>\<open>?\<close> parameter. An SQLite integer has 64 bits; a
  list, tuple or dict cannot be bound.
\<close>

fun bind_param :: "pyval \<Rightarrow> py_error + cell" where
  "bind_param PNone = Inr CNull"
| "bind_param (PBool b) = Inr (CInt (if b then 1 else 0))"
| "bind_param (PInt i) =
     (if - (2 ^ 63) \<le> i \<and> i < 2 ^ 63 then Inr (CInt i) else Inl OverflowError)"
| "bind_param (PStr s) = Inr (CText s)"
| "bind_param v = Inl ProgrammingError"

text \<open>A column declared TEXT stores an integer as its decimal text.\<close>

fun text_affinity :: "cell \<Rightarrow> cell" where
  "text_affinity (CInt i) = CText (str_of_int i)"
| "text_affinity c = c"

text \<open>\<^verbatim>\<open>str(v)\<close> of a value read from a cell.\<close>

fun str_of_cell :: "cell \<Rightarrow> string" where
  "str_of_cell CNull = ''None''"
| "str_of_cell (CInt i) = str_of_int i"
| "str_of_cell (CText s) = s"

subsection \<open>Comparison and repetition, as used by the spike test\<close>

fun str_less :: "string \<Rightarrow> string \<Rightarrow> bool" where
  "str_less [] [] = False"
| "str_less [] (y # ys) = True"
| "str_less (x # xs) [] = False"
| "str_less (x # xs) (y # ys) =
     (if (of_char x :: nat) < of_char y then True
      else if x = y then str_less xs ys else False)"

text \<open>\<^verbatim>\<open>v * 2\<close>.\<close>

fun times_two :: "pyval \<Rightarrow> py_error + pyval" where
  "times_two (PInt i) = Inr (PInt (i * 2))"
| "times_two (PBool b) = Inr (PInt ((if b then 1 else 0) * 2))"
| "times_two (PStr s) = Inr (PStr (s @ s))"
| "times_two (PList xs) = Inr (PList (xs @ xs))"
| "times_two (PTuple xs) = Inr (PTuple (xs @ xs))"
| "times_two v = Inl TypeError"

text \<open>
  \<^verbatim>\<open>a > b\<close> where b is an int or a str (twice a value read from a cell): numbers
  compare with numbers, strings with strings, every other pairing raises TypeError.
\<close>

definition greater :: "pyval \<Rightarrow> pyval \<Rightarrow> py_error + bool" where
  "greater a b =
     (case (as_int a, as_int b) of
        (Some i, Some j) \<Rightarrow> Inr (j < i)
      | _ \<Rightarrow> (case (a, b) of (PStr s, PStr t) \<Rightarrow> Inr (str_less t s) | _ \<Rightarrow> Inl TypeError))"

subsection \<open>SQLite files\<close>

text \<open>
  Table \<^verbatim>\<open>tokens (id TEXT PRIMARY KEY, name TEXT)\<close> is created by
  \<^verbatim>\<open>save_token_list\<close>; a row is the pair of its two cells.
\<close>

type_synonym token_row = "cell \<times> cell"

text \<open>
  Modelled from the spec: the table \<^verbatim>\<open>token_volumes\<close> is used by the code but never
  created by it, so its declaration is missing. The spec gives its columns as
  \<open>token_id\<close>, \<open>total_volume\<close> (number or null) and \<open>date\<close> (defaults to the
  current day). \<^verbatim>\<open>get_token_volume\<close> selects a column \<open>id\<close>, which the spec does
  not list: whether the table declares it is the flag \<open>has_id\<close>, and \<open>rid\<close> is its
  cell when it does. What the missing declaration adds on an insert (column types,
  defaults of the columns that the statement leaves out, constraints) is the parameter
  \<open>admit\<close>: from the rows present and the row as bound it gives the row as stored, or
  None when a constraint rejects it. The date is a day number.
\<close>

record volume_row =
  rid :: cell
  token_id :: cell
  total_volume :: cell
  date :: int

record volume_table =
  has_id :: bool
  admit :: "volume_row list \<Rightarrow> volume_row \<Rightarrow> volume_row option"
  vrows :: "volume_row list"

text \<open>A database file; a table that was never created is None.\<close>

record database =
  tokens :: "token_row list option"
  token_volumes :: "volume_table option"

definition empty_database :: database where
  "empty_database = \<lparr>tokens = None, token_volumes = None\<rparr>"

text \<open>Modelled from the spec: the three columns of the spec and no constraint.\<close>

definition spec_volume_table :: "volume_row list \<Rightarrow> volume_table" where
  "spec_volume_table rs = \<lparr>has_id = False, admit = (\<lambda>present r. Some r), vrows = rs\<rparr>"

subsection \<open>HTTP answers, log lines, the world\<close>

text \<open>
  An answer of the server: its status, the value of its \<^verbatim>\<open>Retry-After\<close> header when
  it has one, and the document that its body decodes to, None when the body is not JSON.
\<close>

record response =
  status_code :: int
  retry_after :: "string option"
  json :: "pyval option"

text \<open>\<^verbatim>\<open>response.json()\<close>\<close>

definition response_json :: "response \<Rightarrow> py_error + pyval" where
  "response_json r = (case json r of None \<Rightarrow> Inl JSONDecodeError | Some data \<Rightarrow> Inr data)"

datatype http_outcome = Answer response | NoConnection

text \<open>
  The pieces of a formatted string: literal text, an interpolated value, an interpolated
  exception. They are kept apart instead of being rendered into one string.
\<close>

datatype piece = Lit string | Val pyval | Exc py_error

datatype event =
    Request "piece list" "(string \<times> pyval) list"
  | Sleep int
  | Print "piece list"
  | Execute string "pyval list"

text \<open>
  The world: the committed content of every SQLite file (a file never written is the
  empty database, as \<^verbatim>\<open>sqlite3.connect\<close> creates it), the clock in seconds, the
  seconds since the machine started (its monotonic clock), the answers that the server
  gives to the coming requests in order, and the effects so far:
  HTTP requests (the pieces of the URL and the query parameters), sleeps, printed lines,
  and the statements on the table \<^verbatim>\<open>token_volumes\<close> handed to a connection (a
  short name of the statement and its parameters).
\<close>

record world =
  files :: "string \<Rightarrow> database"
  clock :: nat
  uptime :: nat
  script :: "http_outcome list"
  trace :: "event list"

definition today :: "world \<Rightarrow> int" where
  "today w = int (clock w div 86400)"

definition emit :: "event \<Rightarrow> world \<Rightarrow> world" where
  "emit e w = w\<lparr>trace := trace w @ [e]\<rparr>"

definition print :: "piece list \<Rightarrow> world \<Rightarrow> world" where
  "print ps w = emit (Print ps) w"

text \<open>\<^verbatim>\<open>requests.get(url, params=params)\<close>: takes the next scripted answer.\<close>

definition requests_get ::
  "piece list \<Rightarrow> (string \<times> pyval) list \<Rightarrow> world \<Rightarrow> response outcome \<times> world" where
  "requests_get url params w =
     (case script w of
        [] \<Rightarrow> (Pending, w)
      | a # rest \<Rightarrow>
          (let w' = emit (Request url params) (w\<lparr>script := rest\<rparr>)
           in case a of
                NoConnection \<Rightarrow> (Raises RequestException, w')
              | Answer r \<Rightarrow> (Returns r, w')))"

text \<open>
  \<^verbatim>\<open>time.sleep(n)\<close> for an int n, as CPython 3.11 on Linux does it. The duration is
  first converted to a signed 64-bit count of nanoseconds, so that an n beyond 9223372036
  in either direction raises OverflowError; then a negative n raises ValueError; then the
  sleep is handed to the kernel as a deadline on the monotonic clock, and a deadline
  beyond 9223372036 seconds is refused with OSError (invalid argument). Both clocks
  advance by the time slept; no other step of the program takes time.
\<close>

definition time_sleep :: "int \<Rightarrow> world \<Rightarrow> unit outcome \<times> world" where
  "time_sleep n w =
     (if n < - 9223372036 \<or> 9223372036 < n then (Raises OverflowError, w)
      else if n < 0 then (Raises ValueError, w)
      else if 9223372036 < int (uptime w) + n then (Raises OSError, w)
      else (Returns (),
            emit (Sleep n) (w\<lparr>clock := clock w + nat n, uptime := uptime w + nat n\<rparr>)))"

text \<open>\<^verbatim>\<open>int(response.headers.get('Retry-After', 30))\<close>\<close>

definition retry_after_seconds :: "response \<Rightarrow> py_error + int" where
  "retry_after_seconds r = (case retry_after r of None \<Rightarrow> Inr 30 | Some s \<Rightarrow> int_of_str s)"

section \<open>The class \<^verbatim>\<open>CoinGeckoAPI\<close>\<close>

text \<open>
  Every method takes the world and returns its result with the world it leaves. Default
  arguments are passed by the caller: \<open>default_db\<close> is the default of every
  \<^verbatim>\<open>db_file\<close> (or \<^verbatim>\<open>db\<close>) parameter, and the program itself never passes
  another file.
\<close>

definition base_url :: string where
  "base_url = ''https://api.coingecko.com/api/v3/''"

definition default_db :: string where
  "default_db = ''token_data.db''"

subsection \<open>\<^verbatim>\<open>fetch_token_data\<close>\<close>

text \<open>
  The handler \<^verbatim>\<open>except requests.exceptions.RequestException as e\<close> of both fetch
  functions: it logs and returns None; any other exception leaves the function.
\<close>

definition except_request :: "py_error \<Rightarrow> world \<Rightarrow> pyval outcome \<times> world" where
  "except_request e w =
     (if request_failure e then (Returns PNone, print [Lit ''Error fetching data: '', Exc e] w)
      else (Raises e, w))"

text \<open>
  The retry after a 429 answer is a nested call of the function itself, as in the source.
  Each call takes the next answer of the server, so the recursion ends with the script.
  The interpreter's limit on the depth of nested calls is not modelled.
\<close>

function fetch_token_data :: "pyval \<Rightarrow> pyval \<Rightarrow> pyval \<Rightarrow> world \<Rightarrow> pyval outcome \<times> world" where
  "fetch_token_data vs_currency per_page page w =
     (case requests_get [Lit base_url, Lit ''coins/markets'']
             [(''vs_currency'', vs_currency), (''per_page'', per_page), (''page'', page)] w of
        (Pending, w1) \<Rightarrow> (Pending, w1)
      | (Raises e, w1) \<Rightarrow> except_request e w1
      | (Returns r, w1) \<Rightarrow>
          (if status_code r = 200 then
             (case response_json r of
                Inl e \<Rightarrow> except_request e w1
              | Inr data \<Rightarrow> (Returns data, w1))
           else if status_code r = 429 then
             (case retry_after_seconds r of
                Inl e \<Rightarrow> (Raises e, w1)
              | Inr n \<Rightarrow>
                  (case time_sleep n
                          (print [Lit ''Hit rate limit. Retrying after '', Val (PInt n),
                                  Lit '' seconds''] w1) of
                     (Returns u, w2) \<Rightarrow> fetch_token_data vs_currency per_page page w2
                   | (Raises e, w2) \<Rightarrow> (Raises e, w2)
                   | (Pending, w2) \<Rightarrow> (Pending, w2)))
           else (Returns PNone,
                 print [Lit ''API Error. Status Code: '', Val (PInt (status_code r))] w1)))"
  by pat_completeness auto
termination
  by (relation "measure (\<lambda>(c, n, p, w). length (script w))")
     (auto simp: requests_get_def time_sleep_def emit_def print_def Let_def
           split: list.splits http_outcome.splits if_splits)

declare fetch_token_data.simps [simp del]

subsection \<open>\<^verbatim>\<open>get_token_list\<close>, \<^verbatim>\<open>save_token_list\<close>, \<^verbatim>\<open>check_and_update_token_list\<close>\<close>

text \<open>
  A row that \<^verbatim>\<open>fetchall()\<close> returns is a plain tuple of the selected cells (the
  connection has no row factory).
\<close>

type_synonym row = "cell list"

definition row_value :: "row \<Rightarrow> pyval" where
  "row_value cs = PTuple (map cell_value cs)"

text \<open>\<^verbatim>\<open>token[i]\<close> on such a row, keeping the cell.\<close>

definition row_item :: "row \<Rightarrow> int \<Rightarrow> py_error + cell" where
  "row_item cs i = seq_index cs i"

text \<open>
  The order of SQLite on cells: NULL comes first, then the integers by value, then the
  texts byte by byte.
\<close>

fun cell_less :: "cell \<Rightarrow> cell \<Rightarrow> bool" where
  "cell_less CNull CNull = False"
| "cell_less CNull c = True"
| "cell_less (CInt i) (CInt j) = (i < j)"
| "cell_less (CInt i) (CText t) = True"
| "cell_less (CText s) (CText t) = str_less s t"
| "cell_less c d = False"

text \<open>The cells in that order; equal cells keep the order in which they were stored.\<close>

fun index_insert :: "cell \<Rightarrow> cell list \<Rightarrow> cell list" where
  "index_insert x [] = [x]"
| "index_insert x (y # ys) = (if cell_less y x then y # index_insert x ys else x # y # ys)"

definition index_order :: "cell list \<Rightarrow> cell list" where
  "index_order cs = foldr index_insert cs []"

text \<open>
  \<^verbatim>\<open>SELECT id FROM tokens\<close>. SQLite answers this query from the index of the primary
  key, which holds every id, so the ids come in the order of the index, not in the order
  in which the rows were stored.
\<close>

definition get_token_list :: "string \<Rightarrow> world \<Rightarrow> row list outcome \<times> world" where
  "get_token_list db_file w =
     (case tokens (files w db_file) of
        None \<Rightarrow> (Raises OperationalError, w)
      | Some rows \<Rightarrow> (Returns (map (\<lambda>c. [c]) (index_order (map fst rows))), w))"

text \<open>\<^verbatim>\<open>CREATE TABLE IF NOT EXISTS tokens (id TEXT PRIMARY KEY, name TEXT)\<close>\<close>

definition create_tokens :: "database \<Rightarrow> database" where
  "create_tokens db = (case tokens db of None \<Rightarrow> db\<lparr>tokens := Some []\<rparr> | Some rows \<Rightarrow> db)"

text \<open>
  \<^verbatim>\<open>INSERT INTO tokens VALUES (?, ?)\<close>: the statement is prepared (the table must
  exist), the parameters are bound, and the primary key rejects an id that is present.
  SQLite lets a TEXT primary key be NULL, and NULLs never collide.
\<close>

definition insert_token :: "pyval \<Rightarrow> pyval \<Rightarrow> database \<Rightarrow> py_error + database" where
  "insert_token i n db =
     (case tokens db of
        None \<Rightarrow> Inl OperationalError
      | Some rows \<Rightarrow>
          (case bind_param i of
             Inl e \<Rightarrow> Inl e
           | Inr ci \<Rightarrow>
               (case bind_param n of
                  Inl e \<Rightarrow> Inl e
                | Inr cn \<Rightarrow>
                    (let k = text_affinity ci
                     in if k \<noteq> CNull \<and> k \<in> set (map fst rows) then Inl IntegrityError
                        else Inr (db\<lparr>tokens := Some (rows @ [(k, text_affinity cn)])\<rparr>)))))"

text \<open>\<^verbatim>\<open>{token[0] for token in rows}\<close>\<close>

fun first_items :: "row list \<Rightarrow> py_error + pyval list" where
  "first_items [] = Inr []"
| "first_items (t # ts) =
     (case row_item t 0 of
        Inl e \<Rightarrow> Inl e
      | Inr c \<Rightarrow> (case first_items ts of Inl e \<Rightarrow> Inl e | Inr vs \<Rightarrow> Inr (cell_value c # vs)))"

text \<open>
  The loop \<^verbatim>\<open>for token in token_list\<close> of both functions, on the connection's view
  of the database. \<^verbatim>\<open>token['id']\<close> is read in the test and again in the parameter
  tuple, with the same result. Only IntegrityError is caught.
\<close>

fun insert_missing :: "pyval list \<Rightarrow> pyval list \<Rightarrow> database \<Rightarrow> py_error + database" where
  "insert_missing existing_token_ids [] db = Inr db"
| "insert_missing existing_token_ids (token # rest) db =
     (case getitem token (KStr ''id'') of
        Inl e \<Rightarrow> Inl e
      | Inr i \<Rightarrow>
          (case not_in_set i existing_token_ids of
             Inl e \<Rightarrow> Inl e
           | Inr absent \<Rightarrow>
               if absent then
                 (case getitem token (KStr ''name'') of
                    Inl e \<Rightarrow> Inl e
                  | Inr n \<Rightarrow>
                      (case insert_token i n db of
                         Inl e \<Rightarrow>
                           if e = IntegrityError then insert_missing existing_token_ids rest db
                           else Inl e
                       | Inr db' \<Rightarrow> insert_missing existing_token_ids rest db'))
               else insert_missing existing_token_ids rest db))"

definition commit :: "string \<Rightarrow> database \<Rightarrow> world \<Rightarrow> world" where
  "commit db_file db w = w\<lparr>files := (files w)(db_file := db)\<rparr>"

text \<open>
  The part that both functions share after the listing has come: read the stored ids
  (always from the default file: \<^verbatim>\<open>self.get_token_list()\<close> is called without
  \<open>db_file\<close>), run the loop, commit. An exception leaves the inserts uncommitted.
\<close>

definition update_tokens_table :: "string \<Rightarrow> pyval \<Rightarrow> world \<Rightarrow> pyval outcome \<times> world" where
  "update_tokens_table db_file token_list w =
     (case get_token_list default_db w of
        (Raises e, w1) \<Rightarrow> (Raises e, w1)
      | (Pending, w1) \<Rightarrow> (Pending, w1)
      | (Returns rows, w1) \<Rightarrow>
          (case first_items rows of
             Inl e \<Rightarrow> (Raises e, w1)
           | Inr existing_token_ids \<Rightarrow>
               (case py_iter token_list of
                  Inl e \<Rightarrow> (Raises e, w1)
                | Inr toks \<Rightarrow>
                    (case insert_missing existing_token_ids toks (files w1 db_file) of
                       Inl e \<Rightarrow> (Raises e, w1)
                     | Inr db' \<Rightarrow>
                         (Returns PNone,
                          print [Lit ''Token list updated.''] (commit db_file db' w1))))))"

definition save_token_list :: "string \<Rightarrow> world \<Rightarrow> pyval outcome \<times> world" where
  "save_token_list db_file w =
     (case requests_get [Lit base_url, Lit ''coins/list''] [] w of
        (Pending, w1) \<Rightarrow> (Pending, w1)
      | (Raises e, w1) \<Rightarrow> (Raises e, w1)
      | (Returns r, w1) \<Rightarrow>
          if status_code r = 200 then
            (case response_json r of
               Inl e \<Rightarrow> (Raises e, w1)
             | Inr token_list \<Rightarrow>
                 update_tokens_table db_file token_list
                   (commit db_file (create_tokens (files w1 db_file)) w1))
          else (Returns PNone, print [Lit ''Error fetching token list.''] w1))"

definition check_and_update_token_list :: "string \<Rightarrow> world \<Rightarrow> pyval outcome \<times> world" where
  "check_and_update_token_list db_file w =
     (case requests_get [Lit base_url, Lit ''coins/list''] [] w of
        (Pending, w1) \<Rightarrow> (Pending, w1)
      | (Raises e, w1) \<Rightarrow> (Raises e, w1)
      | (Returns r, w1) \<Rightarrow>
          if status_code r = 200 then
            (case response_json r of
               Inl e \<Rightarrow> (Raises e, w1)
             | Inr token_list \<Rightarrow> update_tokens_table db_file token_list w1)
          else (Returns PNone, print [Lit ''Error fetching token list.''] w1))"

subsection \<open>\<^verbatim>\<open>fetch_token_volume\<close>\<close>

text \<open>
  What the branch for status 200 computes from the decoded document. The second reading
  of \<^verbatim>\<open>data['market_data']['total_volume']\<close> gives the same value as the first.
\<close>

definition daily_volume :: "pyval \<Rightarrow> py_error + pyval" where
  "daily_volume data =
     (case getitem data (KStr ''market_data'') of
        Inl e \<Rightarrow> Inl e
      | Inr market_data \<Rightarrow>
          (case getitem market_data (KStr ''total_volume'') of
             Inl e \<Rightarrow> Inl e
           | Inr volumes \<Rightarrow>
               if \<not> truthy volumes then Inr (PStr ''null'')
               else getitem volumes (KStr ''usd'')))"

function fetch_token_volume :: "pyval \<Rightarrow> world \<Rightarrow> pyval outcome \<times> world" where
  "fetch_token_volume coin_id w =
     (case requests_get [Lit base_url, Lit ''coins/'', Val coin_id] [] w of
        (Pending, w1) \<Rightarrow> (Pending, w1)
      | (Raises e, w1) \<Rightarrow> except_request e w1
      | (Returns r, w1) \<Rightarrow>
          (if status_code r = 200 then
             (case response_json r of
                Inl e \<Rightarrow> except_request e w1
              | Inr data \<Rightarrow>
                  (case daily_volume data of
                     Inl e \<Rightarrow> except_request e w1
                   | Inr v \<Rightarrow> (Returns v, print [Val coin_id, Lit '': '', Val v] w1)))
           else if status_code r = 429 then
             (case retry_after_seconds r of
                Inl e \<Rightarrow> (Raises e, w1)
              | Inr n \<Rightarrow>
                  (case time_sleep n
                          (print [Lit ''Hit rate limit. Retrying after '', Val (PInt n),
                                  Lit '' seconds''] w1) of
                     (Returns u, w2) \<Rightarrow> fetch_token_volume coin_id w2
                   | (Raises e, w2) \<Rightarrow> (Raises e, w2)
                   | (Pending, w2) \<Rightarrow> (Pending, w2)))
           else (Returns PNone,
                 print [Lit ''API Error. Status Code: '', Val (PInt (status_code r))] w1)))"
  by pat_completeness auto
termination
  by (relation "measure (\<lambda>(c, w). length (script w))")
     (auto simp: requests_get_def time_sleep_def emit_def print_def Let_def
           split: list.splits http_outcome.splits if_splits)

declare fetch_token_volume.simps [simp del]

subsection \<open>\<^verbatim>\<open>save_token_volumes\<close>\<close>

text \<open>
  \<^verbatim>\<open>INSERT INTO token_volumes (token_id, total_volume) VALUES (?, ?)\<close> on the
  connection's view of the database; the date is the default of its column.
\<close>

definition insert_volume :: "pyval \<Rightarrow> pyval \<Rightarrow> int \<Rightarrow> database \<Rightarrow> py_error + database" where
  "insert_volume tok_id volume day db =
     (case token_volumes db of
        None \<Rightarrow> Inl OperationalError
      | Some t \<Rightarrow>
          (case bind_param tok_id of
             Inl e \<Rightarrow> Inl e
           | Inr ci \<Rightarrow>
               (case bind_param volume of
                  Inl e \<Rightarrow> Inl e
                | Inr cv \<Rightarrow>
                    (case admit t (vrows t)
                            \<lparr>rid = CNull, token_id = ci, total_volume = cv, date = day\<rparr> of
                       None \<Rightarrow> Inl IntegrityError
                     | Some r \<Rightarrow> Inr (db\<lparr>token_volumes := Some (t\<lparr>vrows := vrows t @ [r]\<rparr>)\<rparr>)))))"

definition insert_volume_stmt :: string where
  "insert_volume_stmt = ''INSERT INTO token_volumes (token_id, total_volume) VALUES (?, ?)''"

text \<open>The loop \<^verbatim>\<open>for token in all_token_data\<close>.\<close>

fun save_volumes_loop :: "row list \<Rightarrow> database \<Rightarrow> world \<Rightarrow> database outcome \<times> world" where
  "save_volumes_loop [] db w = (Returns db, w)"
| "save_volumes_loop (token # rest) db w =
     (case row_item token 0 of
        Inl e \<Rightarrow> (Raises e, w)
      | Inr c \<Rightarrow>
          (let tok_id = PStr (str_of_cell c)
           in case fetch_token_volume tok_id w of
                (Pending, w1) \<Rightarrow> (Pending, w1)
              | (Raises e, w1) \<Rightarrow> (Raises e, w1)
              | (Returns volume, w1) \<Rightarrow>
                  (let w2 = emit (Execute insert_volume_stmt [tok_id, volume]) w1
                   in case insert_volume tok_id volume (today w2) db of
                        Inl e \<Rightarrow>
                          if e = IntegrityError then
                            save_volumes_loop rest db
                              (print [Lit ''Database integrity error for '', Val tok_id,
                                      Lit '': '', Exc e] w2)
                          else if e = OperationalError then
                            save_volumes_loop rest db
                              (print [Lit ''Database operational error for '', Val tok_id,
                                      Lit '': '', Exc e] w2)
                          else (Raises e, w2)
                      | Inr db' \<Rightarrow> save_volumes_loop rest db' w2)))"

definition save_token_volumes :: "string \<Rightarrow> world \<Rightarrow> pyval outcome \<times> world" where
  "save_token_volumes db w =
     (case get_token_list default_db w of
        (Raises e, w1) \<Rightarrow> (Raises e, w1)
      | (Pending, w1) \<Rightarrow> (Pending, w1)
      | (Returns all_token_data, w1) \<Rightarrow>
          if length all_token_data = 0 then
            (Returns PNone,
             print [Lit ''No tokens found in the token list. Skipping saving volumes''] w1)
          else
            (case save_volumes_loop all_token_data (files w1 db) w1 of
               (Raises e, w2) \<Rightarrow> (Raises e, w2)
             | (Pending, w2) \<Rightarrow> (Pending, w2)
             | (Returns db', w2) \<Rightarrow>
                 (Returns (PStr ''Token volume data saved.''), commit db db' w2)))"

subsection \<open>\<^verbatim>\<open>get_token_volume\<close>, \<^verbatim>\<open>update_token_volumes\<close>\<close>

text \<open>
  \<^verbatim>\<open>SELECT id FROM token_volumes\<close>: an OperationalError when the table or the
  column is missing. The declaration of the table is missing, and with it the order of
  the answer; the rows are taken in the order in which they are stored.
\<close>

definition get_token_volume :: "string \<Rightarrow> world \<Rightarrow> row list outcome \<times> world" where
  "get_token_volume db_file w =
     (case token_volumes (files w db_file) of
        None \<Rightarrow> (Raises OperationalError, w)
      | Some t \<Rightarrow>
          if has_id t then (Returns (map (\<lambda>r. [rid r]) (vrows t)), w)
          else (Raises OperationalError, w))"

text \<open>
  \<^verbatim>\<open>UPDATE token_volumes SET total_volume = ? WHERE token_id = ? AND date = date('now')\<close>
  with the parameters in the order in which they are bound; the second component is the
  number of rows changed. A NULL never equals anything. Cells are compared as they are,
  and what the missing declaration of the table would check on an update is left out.
\<close>

definition update_volume ::
  "pyval \<Rightarrow> pyval \<Rightarrow> int \<Rightarrow> database \<Rightarrow> py_error + database \<times> nat" where
  "update_volume p1 p2 day db =
     (case token_volumes db of
        None \<Rightarrow> Inl OperationalError
      | Some t \<Rightarrow>
          (case bind_param p1 of
             Inl e \<Rightarrow> Inl e
           | Inr c1 \<Rightarrow>
               (case bind_param p2 of
                  Inl e \<Rightarrow> Inl e
                | Inr c2 \<Rightarrow>
                    (let hit = (\<lambda>r. c2 \<noteq> CNull \<and> token_id r = c2 \<and> date r = day)
                     in Inr (db\<lparr>token_volumes :=
                                  Some (t\<lparr>vrows := map (\<lambda>r. if hit r then r\<lparr>total_volume := c1\<rparr>
                                                            else r) (vrows t)\<rparr>)\<rparr>,
                             length (filter hit (vrows t)))))))"

text \<open>
  \<^verbatim>\<open>SELECT total_volume FROM token_volumes WHERE token_id = ? AND date = date('now', '-1 day')\<close>
\<close>

definition select_yesterday :: "pyval \<Rightarrow> int \<Rightarrow> database \<Rightarrow> py_error + row list" where
  "select_yesterday p day db =
     (case token_volumes db of
        None \<Rightarrow> Inl OperationalError
      | Some t \<Rightarrow>
          (case bind_param p of
             Inl e \<Rightarrow> Inl e
           | Inr c \<Rightarrow>
               Inr (map (\<lambda>r. [total_volume r])
                      (filter (\<lambda>r. c \<noteq> CNull \<and> token_id r = c \<and> date r = day - 1) (vrows t)))))"

text \<open>
  The connection of \<^verbatim>\<open>update_token_volumes\<close>: its view of the database and
  \<^verbatim>\<open>conn.total_changes\<close>, the rows changed since it was opened.
\<close>

record connection =
  view :: database
  total_changes :: nat

definition update_volume_stmt :: string where
  "update_volume_stmt = ''UPDATE token_volumes SET total_volume = ? WHERE token_id = ? AND date = date(now)''"

definition select_yesterday_stmt :: string where
  "select_yesterday_stmt = ''SELECT total_volume FROM token_volumes WHERE token_id = ? AND date = date(now, -1 day)''"

text \<open>
  The statements inside the \<^verbatim>\<open>try\<close> block end with the exception raised, if
  any, next to the connection as the statements before it left it.

  \<^verbatim>\<open>if conn.total_changes == 0:\<close> followed by the insert of
  \<^verbatim>\<open>(token['id'], token_volume)\<close>.
\<close>

definition insert_if_unchanged ::
  "row \<Rightarrow> pyval \<Rightarrow> connection \<Rightarrow> world \<Rightarrow> py_error option \<times> connection \<times> world" where
  "insert_if_unchanged token token_volume conn w =
     (if total_changes conn = 0 then
        (case getitem (row_value token) (KStr ''id'') of
           Inl e \<Rightarrow> (Some e, conn, w)
         | Inr i \<Rightarrow>
             (let w1 = emit (Execute insert_volume_stmt [i, token_volume]) w
              in case insert_volume i token_volume (today w1) (view conn) of
                   Inl e \<Rightarrow> (Some e, conn, w1)
                 | Inr db \<Rightarrow> (None, \<lparr>view = db, total_changes = total_changes conn + 1\<rparr>, w1)))
      else (None, conn, w))"

text \<open>\<^verbatim>\<open>result[0][0] if result else 0\<close>\<close>

definition yesterdays :: "row list \<Rightarrow> py_error + pyval" where
  "yesterdays result =
     (case result of
        [] \<Rightarrow> Inr (PInt 0)
      | r # rs \<Rightarrow> (case row_item r 0 of Inl e \<Rightarrow> Inl e | Inr c \<Rightarrow> Inr (cell_value c)))"

text \<open>
  The comparison with yesterday's volume: the select, the print of the value found, and
  the flag \<^verbatim>\<open>volume is 2x lol\<close> when \<^verbatim>\<open>token_volume > yesterdays_volume * 2\<close>.
\<close>

definition spike_check :: "row \<Rightarrow> pyval \<Rightarrow> connection \<Rightarrow> world \<Rightarrow> py_error option \<times> world" where
  "spike_check token token_volume conn w =
     (case getitem (row_value token) (KStr ''id'') of
        Inl e \<Rightarrow> (Some e, w)
      | Inr i \<Rightarrow>
          (let w1 = emit (Execute select_yesterday_stmt [i]) w
           in case select_yesterday i (today w1) (view conn) of
                Inl e \<Rightarrow> (Some e, w1)
              | Inr result \<Rightarrow>
                  (case yesterdays result of
                     Inl e \<Rightarrow> (Some e, w1)
                   | Inr yesterdays_volume \<Rightarrow>
                       (let w2 = print [Val yesterdays_volume] w1
                        in case times_two yesterdays_volume of
                             Inl e \<Rightarrow> (Some e, w2)
                           | Inr twice \<Rightarrow>
                               (case greater token_volume twice of
                                  Inl e \<Rightarrow> (Some e, w2)
                                | Inr spike \<Rightarrow>
                                    (None,
                                     if spike then print [Lit ''volume is 2x lol''] w2 else w2))))))"

text \<open>
  The body of the \<^verbatim>\<open>try\<close> block for one row, given the fetched volume. The
  parameters of the update are \<^verbatim>\<open>(token['total_volume'], token_volume)\<close>, in this
  order.
\<close>

definition try_update ::
  "row \<Rightarrow> pyval \<Rightarrow> connection \<Rightarrow> world \<Rightarrow> py_error option \<times> connection \<times> world" where
  "try_update token token_volume conn w =
     (case getitem (row_value token) (KStr ''total_volume'') of
        Inl e \<Rightarrow> (Some e, conn, w)
      | Inr stored \<Rightarrow>
          (let w1 = emit (Execute update_volume_stmt [stored, token_volume]) w
           in case update_volume stored token_volume (today w1) (view conn) of
                Inl e \<Rightarrow> (Some e, conn, w1)
              | Inr (db1, changed) \<Rightarrow>
                  (case insert_if_unchanged token token_volume
                          \<lparr>view = db1, total_changes = total_changes conn + changed\<rparr> w1 of
                     (Some e, conn2, w2) \<Rightarrow> (Some e, conn2, w2)
                   | (None, conn2, w2) \<Rightarrow>
                       (case spike_check token token_volume conn2 w2 of
                          (err, w3) \<Rightarrow> (err, conn2, w3)))))"

text \<open>
  The loop \<^verbatim>\<open>for token in tokens\<close> with its two handlers. The first
  \<^verbatim>\<open>token['id']\<close> and the fetch stand before the \<^verbatim>\<open>try\<close>.
\<close>

fun update_volumes_loop :: "row list \<Rightarrow> connection \<Rightarrow> world \<Rightarrow> connection outcome \<times> world" where
  "update_volumes_loop [] conn w = (Returns conn, w)"
| "update_volumes_loop (token # rest) conn w =
     (case getitem (row_value token) (KStr ''id'') of
        Inl e \<Rightarrow> (Raises e, w)
      | Inr i \<Rightarrow>
          (case fetch_token_volume i w of
             (Pending, w1) \<Rightarrow> (Pending, w1)
           | (Raises e, w1) \<Rightarrow> (Raises e, w1)
           | (Returns token_volume, w1) \<Rightarrow>
               (case try_update token token_volume conn w1 of
                  (None, conn', w2) \<Rightarrow> update_volumes_loop rest conn' w2
                | (Some e, conn', w2) \<Rightarrow>
                    if e = IntegrityError \<or> e = OperationalError then
                      (case getitem (row_value token) (KStr ''id'') of
                         Inl e' \<Rightarrow> (Raises e', w2)
                       | Inr i' \<Rightarrow>
                           update_volumes_loop rest conn'
                             (print [Lit (if e = IntegrityError
                                          then ''Database integrity error for ''
                                          else ''Database operational error for ''),
                                     Val i', Lit '': '', Exc e] w2))
                    else (Raises e, w2))))"

definition update_token_volumes :: "string \<Rightarrow> world \<Rightarrow> pyval outcome \<times> world" where
  "update_token_volumes db_file w =
     (case get_token_volume default_db w of
        (Raises e, w1) \<Rightarrow> (Raises e, w1)
      | (Pending, w1) \<Rightarrow> (Pending, w1)
      | (Returns token_rows, w1) \<Rightarrow>
          if token_rows = [] then (Returns PNone, w1)
          else
            (case update_volumes_loop token_rows \<lparr>view = files w1 db_file, total_changes = 0\<rparr> w1 of
               (Raises e, w2) \<Rightarrow> (Raises e, w2)
             | (Pending, w2) \<Rightarrow> (Pending, w2)
             | (Returns conn, w2) \<Rightarrow>
                 (Returns PNone,
                  print [Lit ''Token volume data updated.''] (commit db_file (view conn) w2))))"

subsection \<open>\<^verbatim>\<open>delete_old_data\<close>\<close>

text \<open>
  \<^verbatim>\<open>DELETE FROM token_volumes WHERE date < date('now', '-21 days')\<close>. SQLite
  compares the dates as ISO texts, which order as the days they name.
\<close>

definition delete_old_data :: "string \<Rightarrow> world \<Rightarrow> pyval outcome \<times> world" where
  "delete_old_data db_file w =
     (case token_volumes (files w db_file) of
        None \<Rightarrow> (Raises OperationalError, w)
      | Some t \<Rightarrow>
          (Returns PNone,
           print [Lit ''Token volume data deleted.'']
             (commit db_file
                ((files w db_file)\<lparr>token_volumes :=
                    Some (t\<lparr>vrows := filter (\<lambda>r. \<not> date r < today w - 21) (vrows t)\<rparr>)\<rparr>) w)))"


section \<open>Notions used to state the properties\<close>

text \<open>
  Rate-limit answers that a fetch waits through, one after the other, when the machine has
  been up for \<open>up\<close> seconds: each has status 429 and a waiting time that can be read
  (the header is absent, or \<^verbatim>\<open>int\<close> reads it) and slept (it is not negative and its
  deadline is within the range of the monotonic clock).
\<close>

fun waits_through :: "nat \<Rightarrow> http_outcome list \<Rightarrow> bool" where
  "waits_through up [] = True"
| "waits_through up (a # s) =
     (case a of
        NoConnection \<Rightarrow> False
      | Answer r \<Rightarrow>
          status_code r = 429 \<and>
          (case retry_after_seconds r of
             Inl e \<Rightarrow> False
           | Inr n \<Rightarrow> 0 \<le> n \<and> int up + n \<le> 9223372036 \<and> waits_through (up + nat n) s))"

text \<open>A transport failure, or an answer whose status is neither 200 nor 429.\<close>

definition failed :: "http_outcome \<Rightarrow> bool" where
  "failed a =
     (case a of NoConnection \<Rightarrow> True | Answer r \<Rightarrow> status_code r \<noteq> 200 \<and> status_code r \<noteq> 429)"

text \<open>
  The volume mapping of a detail document: \<^verbatim>\<open>data['market_data']['total_volume']\<close>
  when it is a JSON object.
\<close>

definition volume_mapping :: "pyval \<Rightarrow> (string \<times> pyval) list option" where
  "volume_mapping data =
     (case getitem data (KStr ''market_data'') of
        Inl e \<Rightarrow> None
      | Inr market_data \<Rightarrow>
          (case getitem market_data (KStr ''total_volume'') of
             Inr (PDict m) \<Rightarrow> Some m
           | _ \<Rightarrow> None))"

fun is_number :: "pyval \<Rightarrow> bool" where
  "is_number (PInt i) = True"
| "is_number v = False"

text \<open>An entry of the listing: a JSON object with a string \<open>id\<close> and a string \<open>name\<close>.\<close>

definition token_entry :: "pyval \<Rightarrow> bool" where
  "token_entry t =
     (case (getitem t (KStr ''id''), getitem t (KStr ''name'')) of
        (Inr (PStr i), Inr (PStr n)) \<Rightarrow> True
      | _ \<Rightarrow> False)"

definition entry_id :: "pyval \<Rightarrow> cell" where
  "entry_id t = (case getitem t (KStr ''id'') of Inr (PStr i) \<Rightarrow> CText i | _ \<Rightarrow> CNull)"

text \<open>The rows of the table \<^verbatim>\<open>tokens\<close> of a database, none when it was never created.\<close>

definition stored_tokens :: "database \<Rightarrow> token_row list" where
  "stored_tokens db = (case tokens db of None \<Rightarrow> [] | Some rows \<Rightarrow> rows)"

text \<open>The primary key of \<^verbatim>\<open>tokens\<close>: no two rows share an id that is not NULL.\<close>

definition primary_key_ok :: "token_row list \<Rightarrow> bool" where
  "primary_key_ok rows = distinct (filter (\<lambda>c. c \<noteq> CNull) (map fst rows))"

text \<open>
  The table \<^verbatim>\<open>tokens\<close> of \<open>db\<close> after a sync of the rows \<open>old\<close> with a listing:
  the old rows are still there, unchanged and in their places, the ids are those of the
  old rows and of the listing, and no id that is not NULL occurs twice.
\<close>

definition synced :: "token_row list \<Rightarrow> pyval list \<Rightarrow> database \<Rightarrow> bool" where
  "synced old listing db =
     (case tokens db of
        None \<Rightarrow> False
      | Some rows \<Rightarrow>
          prefix old rows \<and>
          set (map fst rows) = set (map fst old) \<union> set (map entry_id listing) \<and>
          primary_key_ok rows)"


text \<open>A value that \<^verbatim>\<open>conn.execute\<close> can bind.\<close>

definition bindable :: "pyval \<Rightarrow> bool" where
  "bindable v = (case bind_param v of Inl e \<Rightarrow> False | Inr c \<Rightarrow> True)"

text \<open>
  The coming answers serve n calls of \<^verbatim>\<open>fetch_token_volume\<close>, one after the other,
  when the machine has been up for \<open>up\<close> seconds: each call meets rate-limit answers
  that it can wait through and then an answer that ends it with a bindable value, which
  is a transport failure, a status other than 200 and 429, a 200 body that is not JSON,
  or a 200 document from which a bindable volume is read.
\<close>

fun serves :: "nat \<Rightarrow> nat \<Rightarrow> http_outcome list \<Rightarrow> bool" where
  "serves up 0 s = True"
| "serves up (Suc n) [] = False"
| "serves up (Suc n) (a # s) =
     (case a of
        NoConnection \<Rightarrow> serves up n s
      | Answer r \<Rightarrow>
          if status_code r = 200 then
            (case json r of
               None \<Rightarrow> serves up n s
             | Some data \<Rightarrow>
                 (case daily_volume data of
                    Inl e \<Rightarrow> False
                  | Inr v \<Rightarrow> bindable v \<and> serves up n s))
          else if status_code r = 429 then
            (case retry_after_seconds r of
               Inl e \<Rightarrow> False
             | Inr k \<Rightarrow>
                 0 \<le> k \<and> int up + k \<le> 9223372036 \<and> serves (up + nat k) (Suc n) s)
          else serves up n s)"

text \<open>
  The parameter lists of the inserts into \<^verbatim>\<open>token_volumes\<close> that a trace records,
  in order.
\<close>

fun insert_attempts :: "event list \<Rightarrow> pyval list list" where
  "insert_attempts [] = []"
| "insert_attempts (Execute s ps # es) =
     (if s = insert_volume_stmt then ps # insert_attempts es else insert_attempts es)"
| "insert_attempts (e # es) = insert_attempts es"

text \<open>The number of rows in the table of volumes; none when there is no table.\<close>

definition volume_count :: "database \<Rightarrow> nat" where
  "volume_count db = (case token_volumes db of None \<Rightarrow> 0 | Some t \<Rightarrow> length (vrows t))"

text \<open>
  A line that one of the two handlers of \<^verbatim>\<open>save_token_volumes\<close> prints for a row
  that the database did not take.
\<close>

definition is_storage_error :: "event \<Rightarrow> bool" where
  "is_storage_error ev =
     (case ev of
        Print [Lit l, Val v, Lit s, Exc e] \<Rightarrow>
          s = '': '' \<and>
          (l = ''Database integrity error for '' \<and> e = IntegrityError \<or>
           l = ''Database operational error for '' \<and> e = OperationalError)
      | _ \<Rightarrow> False)"

section \<open>Example worlds\<close>

definition no_files :: "string \<Rightarrow> database" where
  "no_files = (\<lambda>f. empty_database)"

text \<open>
  One stored token; the listing renames it, and brings a new token twice.
\<close>

definition listing_answer :: response where
  "listing_answer =
     \<lparr>status_code = 200, retry_after = None,
      json = Some (PList
        [PDict [(''id'', PStr ''bitcoin''), (''symbol'', PStr ''btc''), (''name'', PStr ''Renamed'')],
         PDict [(''id'', PStr ''ethereum''), (''symbol'', PStr ''eth''), (''name'', PStr ''Ethereum'')],
         PDict [(''id'', PStr ''ethereum''), (''symbol'', PStr ''eth''), (''name'', PStr ''Again'')]])\<rparr>"

definition listing_world :: world where
  "listing_world =
     \<lparr>files = no_files(default_db :=
                 \<lparr>tokens = Some [(CText ''bitcoin'', CText ''Bitcoin'')], token_volumes = None\<rparr>),
      clock = 0, uptime = 0, script = [Answer listing_answer], trace = []\<rparr>"

text \<open>Answers of the server: rate limited, an error status, a detail document.\<close>

definition wait_answer :: "string option \<Rightarrow> response" where
  "wait_answer h = \<lparr>status_code = 429, retry_after = h, json = None\<rparr>"

definition error_answer :: response where
  "error_answer = \<lparr>status_code = 500, retry_after = None, json = None\<rparr>"

definition detail_answer :: "(string \<times> pyval) list \<Rightarrow> response" where
  "detail_answer m =
     \<lparr>status_code = 200, retry_after = None,
      json = Some (PDict [(''id'', PStr ''bitcoin''),
                          (''market_data'', PDict [(''total_volume'', PDict m)])])\<rparr>"

definition failing_world :: world where
  "failing_world =
     \<lparr>files = no_files, clock = 0, uptime = 0,
      script = [Answer (wait_answer (Some ''2'')), Answer error_answer, NoConnection],
      trace = []\<rparr>"

definition serving :: "http_outcome list \<Rightarrow> world" where
  "serving answers =
     \<lparr>files = no_files, clock = 100, uptime = 50, script = answers, trace = []\<rparr>"

definition markets_answer :: response where
  "markets_answer =
     \<lparr>status_code = 200, retry_after = None,
      json = Some (PList [PDict [(''id'', PStr ''bitcoin''), (''name'', PStr ''Bitcoin''),
                                 (''total_volume'', PInt 5)]])\<rparr>"

text \<open>Rows and tables of volumes.\<close>

definition volume :: "cell \<Rightarrow> string \<Rightarrow> cell \<Rightarrow> int \<Rightarrow> volume_row" where
  "volume i t v d = \<lparr>rid = i, token_id = CText t, total_volume = v, date = d\<rparr>"

text \<open>A table that also declares a column \<open>id\<close>, and so answers \<^verbatim>\<open>SELECT id\<close>.\<close>

definition id_volume_table :: "volume_row list \<Rightarrow> volume_table" where
  "id_volume_table rs = \<lparr>has_id = True, admit = (\<lambda>present r. Some r), vrows = rs\<rparr>"

text \<open>A table whose declaration rejects a NULL volume.\<close>

definition strict_volume_table :: "volume_row list \<Rightarrow> volume_table" where
  "strict_volume_table rs =
     \<lparr>has_id = False,
      admit = (\<lambda>present r. if total_volume r = CNull then None else Some r),
      vrows = rs\<rparr>"

text \<open>A store on day 100 with the given tokens and table of volumes.\<close>

definition store :: "token_row list \<Rightarrow> volume_table option \<Rightarrow> http_outcome list \<Rightarrow> world" where
  "store ts vt answers =
     \<lparr>files = no_files(default_db := \<lparr>tokens = Some ts, token_volumes = vt\<rparr>),
      clock = 100 * 86400, uptime = 50, script = answers, trace = []\<rparr>"

definition purge_world :: world where
  "purge_world =
     store [(CText ''bitcoin'', CText ''Bitcoin'')]
       (Some (spec_volume_table
                [volume CNull ''bitcoin'' (CInt 1) 78, volume CNull ''bitcoin'' (CInt 2) 79,
                 volume CNull ''bitcoin'' (CInt 3) 100]))
       []"

text \<open>Today's row of bitcoin is stored with volume 100; the server would answer 250.\<close>

definition stale_world :: world where
  "stale_world =
     store [(CText ''bitcoin'', CText ''Bitcoin'')]
       (Some (id_volume_table [volume (CInt 1) ''bitcoin'' (CInt 100) 100]))
       [Answer (detail_answer [(''usd'', PInt 250)])]"

definition stale_spec_world :: world where
  "stale_spec_world =
     store [(CText ''bitcoin'', CText ''Bitcoin'')]
       (Some (spec_volume_table [volume CNull ''bitcoin'' (CInt 100) 100]))
       [Answer (detail_answer [(''usd'', PInt 250)])]"

text \<open>Yesterday's row of bitcoin has volume 0; the server would answer 5.\<close>

definition spike_world :: world where
  "spike_world =
     store [(CText ''bitcoin'', CText ''Bitcoin'')]
       (Some (id_volume_table [volume (CInt 1) ''bitcoin'' (CInt 0) 99]))
       [Answer (detail_answer [(''usd'', PInt 5)])]"

text \<open>
  Two tokens, stored in another order than that of their ids, and a table of volumes that
  rejects NULL; the first fetch meets a transport failure, the second a document with a
  volume.
\<close>

definition snapshot_world :: world where
  "snapshot_world =
     store [(CText ''ethereum'', CText ''Ethereum''), (CText ''bitcoin'', CText ''Bitcoin'')]
       (Some (strict_volume_table []))
       [NoConnection, Answer (detail_answer [(''usd'', PInt 7)])]"

text \<open>One token; the fetch of its volume fails, or finds an empty volume mapping.\<close>

definition failed_fetch_world :: world where
  "failed_fetch_world =
     store [(CText ''bitcoin'', CText ''Bitcoin'')] (Some (spec_volume_table [])) [NoConnection]"

definition no_data_world :: world where
  "no_data_world =
     store [(CText ''bitcoin'', CText ''Bitcoin'')] (Some (spec_volume_table []))
       [Answer (detail_answer [])]"

text \<open>A \<^verbatim>\<open>Retry-After\<close> header may also hold a date instead of a number of seconds.\<close>

definition http_date :: string where
  "http_date = ''Wed, 21 Oct 2015 07:28:00 GMT''"

section \<open>Syncing the token list\<close>

text \<open>What the loop does with one entry of the listing, and then with all of them.\<close>

lemma token_entryD:
  "token_entry t \<Longrightarrow>
   \<exists>i n. getitem t (KStr ''id'') = Inr (PStr i) \<and> getitem t (KStr ''name'') = Inr (PStr n) \<and>
         entry_id t = CText i"
  by (auto simp: token_entry_def entry_id_def split: sum.splits pyval.splits)

lemma not_in_set_str: "not_in_set (PStr i) ex = Inr (PStr i \<notin> set ex)"
  by (simp add: not_in_set_def py_eq_def list_ex_iff)

lemma cell_value_text: "cell_value c = PStr i \<longleftrightarrow> c = CText i"
  by (cases c) auto

lemma primary_key_ok_append:
  "primary_key_ok rows \<Longrightarrow> k \<notin> set (map fst rows) \<Longrightarrow> primary_key_ok (rows @ [(k, n)])"
  by (auto simp: primary_key_ok_def)

lemma insert_token_str:
  "tokens db = Some rows \<Longrightarrow>
   insert_token (PStr i) (PStr n) db =
     (if CText i \<in> set (map fst rows) then Inl IntegrityError
      else Inr (db\<lparr>tokens := Some (rows @ [(CText i, CText n)])\<rparr>))"
  by (simp add: insert_token_def Let_def)

lemma insert_missing_sync:
  assumes "list_all token_entry ts" and "tokens db = Some rows"
    and "\<forall>c. cell_value c \<in> set ex \<longrightarrow> c \<in> set (map fst rows)"
  shows "\<exists>db' added. insert_missing ex ts db = Inr db' \<and> tokens db' = Some (rows @ added) \<and>
           token_volumes db' = token_volumes db \<and>
           set (map fst (rows @ added)) = set (map fst rows) \<union> entry_id ` set ts \<and>
           (primary_key_ok rows \<longrightarrow> primary_key_ok (rows @ added))"
  using assms
proof (induction ts arbitrary: db rows)
  case Nil
  then show ?case by (intro exI[of _ db] exI[of _ "[]"]) simp
next
  case (Cons t ts)
  from Cons.prems(1) have te: "token_entry t" and rest: "list_all token_entry ts" by simp_all
  from token_entryD[OF te] obtain i n where
    gi: "getitem t (KStr ''id'') = Inr (PStr i)" and gn: "getitem t (KStr ''name'') = Inr (PStr n)"
    and ei: "entry_id t = CText i" by blast
  show ?case
  proof (cases "CText i \<in> set (map fst rows)")
    case True
    have step: "insert_missing ex (t # ts) db = insert_missing ex ts db"
      using gi gn True by (simp add: not_in_set_str insert_token_str[OF Cons.prems(2)])
    from Cons.IH[OF rest Cons.prems(2) Cons.prems(3)] obtain db' added where
      r: "insert_missing ex ts db = Inr db'" "tokens db' = Some (rows @ added)"
         "token_volumes db' = token_volumes db"
         "set (map fst (rows @ added)) = set (map fst rows) \<union> entry_id ` set ts"
         "primary_key_ok rows \<longrightarrow> primary_key_ok (rows @ added)" by blast
    have "set (map fst (rows @ added)) = set (map fst rows) \<union> entry_id ` set (t # ts)"
      using r(4) True ei by auto
    moreover have "insert_missing ex (t # ts) db = Inr db'" using step r(1) by simp
    ultimately show ?thesis using r(2,3,5) by blast
  next
    case False
    have nin: "PStr i \<notin> set ex"
    proof
      assume "PStr i \<in> set ex"
      then have "cell_value (CText i) \<in> set ex" by simp
      with Cons.prems(3) have "CText i \<in> set (map fst rows)" by blast
      with False show False by simp
    qed
    let ?rows = "rows @ [(CText i, CText n)]"
    let ?db = "db\<lparr>tokens := Some ?rows\<rparr>"
    have step: "insert_missing ex (t # ts) db = insert_missing ex ts ?db"
      using gi gn False nin by (simp add: not_in_set_str insert_token_str[OF Cons.prems(2)])
    have ex': "\<forall>c. cell_value c \<in> set ex \<longrightarrow> c \<in> set (map fst ?rows)" using Cons.prems(3) by simp
    have tk: "tokens ?db = Some ?rows" by simp
    from Cons.IH[OF rest tk ex'] obtain db' added where
      r: "insert_missing ex ts ?db = Inr db'" "tokens db' = Some (?rows @ added)"
         "token_volumes db' = token_volumes ?db"
         "set (map fst (?rows @ added)) = set (map fst ?rows) \<union> entry_id ` set ts"
         "primary_key_ok ?rows \<longrightarrow> primary_key_ok (?rows @ added)" by blast
    have pk: "primary_key_ok rows \<longrightarrow> primary_key_ok (rows @ ((CText i, CText n) # added))"
      using r(5) primary_key_ok_append[OF _ False] by simp
    have un: "set (map fst (rows @ ((CText i, CText n) # added))) = set (map fst rows) \<union> entry_id ` set (t # ts)"
      using r(4) ei by auto
    have a: "insert_missing ex (t # ts) db = Inr db'" using step r(1) by simp
    have b: "tokens db' = Some (rows @ ((CText i, CText n) # added))" using r(2) by simp
    have c: "token_volumes db' = token_volumes db" using r(3) by simp
    show ?thesis using a b c pk un by blast
  qed
qed

lemma cell_value_inj: "cell_value c = cell_value d \<Longrightarrow> c = d"
  by (cases c; cases d) auto

lemma first_items_ids: "first_items (map (\<lambda>c. [c]) cs) = Inr (map cell_value cs)"
  by (induction cs) (simp_all add: row_item_def seq_index_def)

lemma set_index_insert: "set (index_insert x ys) = insert x (set ys)"
  by (induction ys) auto

lemma set_index_order: "set (index_order cs) = set cs"
  by (induction cs) (simp_all add: index_order_def set_index_insert)

lemma length_index_insert: "length (index_insert x ys) = Suc (length ys)"
  by (induction ys) auto

lemma length_index_order: "length (index_order cs) = length cs"
  by (induction cs) (simp_all add: index_order_def length_index_insert)

lemma update_tokens_table_sync:
  assumes old: "tokens (files w default_db) = Some old" and ts: "list_all token_entry ts"
    and pk: "primary_key_ok old"
  shows "\<exists>w'. update_tokens_table default_db (PList ts) w = (Returns PNone, w') \<and>
           synced old ts (files w' default_db)"
proof -
  let ?ex = "map cell_value (index_order (map fst old))"
  have inv: "\<forall>c. cell_value c \<in> set ?ex \<longrightarrow> c \<in> set (map fst old)"
    by (auto simp: set_index_order dest: cell_value_inj)
  from insert_missing_sync[OF ts old inv] obtain db' added where
    r: "insert_missing ?ex ts (files w default_db) = Inr db'" "tokens db' = Some (old @ added)"
       "set (map fst (old @ added)) = set (map fst old) \<union> entry_id ` set ts"
       "primary_key_ok old \<longrightarrow> primary_key_ok (old @ added)" by blast
  let ?w' = "print [Lit ''Token list updated.''] (commit default_db db' w)"
  have run: "update_tokens_table default_db (PList ts) w = (Returns PNone, ?w')"
    using old r(1) by (simp add: update_tokens_table_def get_token_list_def first_items_ids)
  have f: "files ?w' default_db = db'" by (simp add: print_def emit_def commit_def)
  have "synced old ts db'"
    using r(2) r(3) r(4) pk by (simp add: synced_def)
  with run f show ?thesis by simp
qed

text \<open>
  Claim C1. When the listing fetch succeeds (status 200, a list of token entries),
  \<^verbatim>\<open>save_token_list\<close> and \<^verbatim>\<open>check_and_update_token_list\<close>, called on the default
  file as the program calls them, return and leave in the table \<^verbatim>\<open>tokens\<close> exactly
  the ids present before together with the ids of the listing; no id occurs twice, every
  old row is still in its place with its old name. The second function needs the table to
  exist, the first creates it.
\<close>

theorem sync_token_list_union:
  assumes "script w = Answer r # rest" and "status_code r = 200"
    and "json r = Some (PList ts)" and "list_all token_entry ts"
    and "primary_key_ok (stored_tokens (files w default_db))"
  shows "(\<exists>w'. save_token_list default_db w = (Returns PNone, w') \<and>
            synced (stored_tokens (files w default_db)) ts (files w' default_db)) \<and>
         (tokens (files w default_db) \<noteq> None \<longrightarrow>
            (\<exists>w'. check_and_update_token_list default_db w = (Returns PNone, w') \<and>
               synced (stored_tokens (files w default_db)) ts (files w' default_db)))"
proof (intro conjI impI)
  let ?old = "stored_tokens (files w default_db)"
  let ?w1 = "emit (Request [Lit base_url, Lit ''coins/list''] []) (w\<lparr>script := rest\<rparr>)"
  let ?w2 = "commit default_db (create_tokens (files ?w1 default_db)) ?w1"
  have get: "requests_get [Lit base_url, Lit ''coins/list''] [] w = (Returns r, ?w1)"
    using assms(1) by (simp add: requests_get_def)
  have t2: "tokens (files ?w2 default_db) = Some ?old"
    by (simp add: commit_def emit_def create_tokens_def stored_tokens_def split: option.splits)
  have "save_token_list default_db w = update_tokens_table default_db (PList ts) ?w2"
    using get assms(2,3) by (simp add: save_token_list_def response_json_def)
  with update_tokens_table_sync[OF t2 assms(4) assms(5)]
  show "\<exists>w'. save_token_list default_db w = (Returns PNone, w') \<and> synced ?old ts (files w' default_db)"
    by simp
  assume "tokens (files w default_db) \<noteq> None"
  then have t1: "tokens (files ?w1 default_db) = Some ?old"
    by (auto simp: emit_def stored_tokens_def)
  have "check_and_update_token_list default_db w = update_tokens_table default_db (PList ts) ?w1"
    using get assms(2,3) by (simp add: check_and_update_token_list_def response_json_def)
  with update_tokens_table_sync[OF t1 assms(4) assms(5)]
  show "\<exists>w'. check_and_update_token_list default_db w = (Returns PNone, w') \<and> synced ?old ts (files w' default_db)"
    by simp
qed

theorem sync_token_list_union_witness:
  "script listing_world = Answer listing_answer # [] \<and> status_code listing_answer = 200 \<and>
   list_all token_entry (case json listing_answer of Some (PList ts) \<Rightarrow> ts | _ \<Rightarrow> []) \<and>
   primary_key_ok (stored_tokens (files listing_world default_db)) \<and>
   tokens (files listing_world default_db) \<noteq> None \<and>
   (\<exists>w'. save_token_list default_db listing_world = (Returns PNone, w') \<and>
      synced [(CText ''bitcoin'', CText ''Bitcoin'')]
        (case json listing_answer of Some (PList ts) \<Rightarrow> ts | _ \<Rightarrow> []) (files w' default_db)) \<and>
   (\<exists>w'. check_and_update_token_list default_db listing_world = (Returns PNone, w') \<and>
      synced [(CText ''bitcoin'', CText ''Bitcoin'')]
        (case json listing_answer of Some (PList ts) \<Rightarrow> ts | _ \<Rightarrow> []) (files w' default_db))"
proof -
  let ?ts = "[PDict [(''id'', PStr ''bitcoin''), (''symbol'', PStr ''btc''), (''name'', PStr ''Renamed'')],
         PDict [(''id'', PStr ''ethereum''), (''symbol'', PStr ''eth''), (''name'', PStr ''Ethereum'')],
         PDict [(''id'', PStr ''ethereum''), (''symbol'', PStr ''eth''), (''name'', PStr ''Again'')]]"
  have h1: "script listing_world = Answer listing_answer # []" by (simp add: listing_world_def)
  have h2: "status_code listing_answer = 200" by (simp add: listing_answer_def)
  have h3: "json listing_answer = Some (PList ?ts)" by (simp add: listing_answer_def)
  have h4: "list_all token_entry ?ts" by (simp add: token_entry_def)
  have st: "stored_tokens (files listing_world default_db) = [(CText ''bitcoin'', CText ''Bitcoin'')]"
    by (simp add: listing_world_def stored_tokens_def)
  have h5: "primary_key_ok (stored_tokens (files listing_world default_db))"
    by (simp add: st primary_key_ok_def)
  have h6: "tokens (files listing_world default_db) \<noteq> None" by (simp add: listing_world_def)
  show ?thesis
    using sync_token_list_union[OF h1 h2 h3 h4 h5] h1 h2 h4 h5 h6 by (simp add: h3 st)
qed

text \<open>
  The same run, evaluated: the stored token keeps its name, the new token is stored once.
\<close>

lemma listing_world_run:
  "fst (save_token_list default_db listing_world) = Returns PNone \<and>
   tokens (files (snd (save_token_list default_db listing_world)) default_db) =
     Some [(CText ''bitcoin'', CText ''Bitcoin''), (CText ''ethereum'', CText ''Ethereum'')]"
  by (simp add: save_token_list_def requests_get_def listing_world_def listing_answer_def
        update_tokens_table_def get_token_list_def create_tokens_def commit_def emit_def
        print_def row_item_def seq_index_def not_in_set_def py_eq_def insert_token_def Let_def
        response_json_def index_order_def)

section \<open>The two fetch functions\<close>

lemma waits_through_Cons:
  "waits_through up (x # pre) \<Longrightarrow>
   \<exists>r n. x = Answer r \<and> status_code r = 429 \<and> retry_after_seconds r = Inr n \<and> 0 \<le> n \<and>
         int up + n \<le> 9223372036 \<and> waits_through (up + nat n) pre"
  by (cases x) (auto split: sum.splits)

text \<open>The world after a 429 answer has been slept through.\<close>

lemma fetch_token_data_retry:
  assumes "script w = Answer r # rest" "status_code r = 429" "retry_after_seconds r = Inr n"
    "0 \<le> n" "int (uptime w) + n \<le> 9223372036"
  shows "fetch_token_data c p g w =
         fetch_token_data c p g
           (w\<lparr>script := rest, clock := clock w + nat n, uptime := uptime w + nat n,
              trace := trace w @
                [Request [Lit base_url, Lit ''coins/markets'']
                   [(''vs_currency'', c), (''per_page'', p), (''page'', g)],
                 Print [Lit ''Hit rate limit. Retrying after '', Val (PInt n), Lit '' seconds''],
                 Sleep n]\<rparr>)"
  using assms
  by (subst fetch_token_data.simps)
     (simp add: requests_get_def time_sleep_def Let_def emit_def print_def)

lemma fetch_token_volume_retry:
  assumes "script w = Answer r # rest" "status_code r = 429" "retry_after_seconds r = Inr n"
    "0 \<le> n" "int (uptime w) + n \<le> 9223372036"
  shows "fetch_token_volume c w =
         fetch_token_volume c
           (w\<lparr>script := rest, clock := clock w + nat n, uptime := uptime w + nat n,
              trace := trace w @
                [Request [Lit base_url, Lit ''coins/'', Val c] [],
                 Print [Lit ''Hit rate limit. Retrying after '', Val (PInt n), Lit '' seconds''],
                 Sleep n]\<rparr>)"
  using assms
  by (subst fetch_token_volume.simps)
     (simp add: requests_get_def time_sleep_def Let_def emit_def print_def)

lemma fetch_token_data_skips:
  "waits_through (uptime w) pre \<Longrightarrow> script w = pre @ a # rest \<Longrightarrow>
   \<exists>w0. script w0 = a # rest \<and> files w0 = files w \<and>
        fetch_token_data c p g w = fetch_token_data c p g w0"
proof (induction pre arbitrary: w)
  case Nil then show ?case by auto
next
  case (Cons x pre)
  from waits_through_Cons[OF Cons.prems(1)] obtain r n where x: "x = Answer r"
    "status_code r = 429" "retry_after_seconds r = Inr n" "0 \<le> n"
    "int (uptime w) + n \<le> 9223372036" and pre: "waits_through (uptime w + nat n) pre"
    by blast
  let ?w1 = "w\<lparr>script := pre @ a # rest, clock := clock w + nat n, uptime := uptime w + nat n,
              trace := trace w @
                [Request [Lit base_url, Lit ''coins/markets'']
                   [(''vs_currency'', c), (''per_page'', p), (''page'', g)],
                 Print [Lit ''Hit rate limit. Retrying after '', Val (PInt n), Lit '' seconds''],
                 Sleep n]\<rparr>"
  have s: "script w = Answer r # (pre @ a # rest)" using Cons.prems(2) x by simp
  have "fetch_token_data c p g w = fetch_token_data c p g ?w1"
    by (rule fetch_token_data_retry[OF s x(2,3,4,5)])
  moreover have "script ?w1 = pre @ a # rest" "files ?w1 = files w"
    "waits_through (uptime ?w1) pre" using pre by simp_all
  ultimately show ?case using Cons.IH[of ?w1] by auto
qed

lemma fetch_token_volume_skips:
  "waits_through (uptime w) pre \<Longrightarrow> script w = pre @ a # rest \<Longrightarrow>
   \<exists>w0. script w0 = a # rest \<and> files w0 = files w \<and>
        fetch_token_volume c w = fetch_token_volume c w0"
proof (induction pre arbitrary: w)
  case Nil then show ?case by auto
next
  case (Cons x pre)
  from waits_through_Cons[OF Cons.prems(1)] obtain r n where x: "x = Answer r"
    "status_code r = 429" "retry_after_seconds r = Inr n" "0 \<le> n"
    "int (uptime w) + n \<le> 9223372036" and pre: "waits_through (uptime w + nat n) pre"
    by blast
  let ?w1 = "w\<lparr>script := pre @ a # rest, clock := clock w + nat n, uptime := uptime w + nat n,
              trace := trace w @
                [Request [Lit base_url, Lit ''coins/'', Val c] [],
                 Print [Lit ''Hit rate limit. Retrying after '', Val (PInt n), Lit '' seconds''],
                 Sleep n]\<rparr>"
  have s: "script w = Answer r # (pre @ a # rest)" using Cons.prems(2) x by simp
  have "fetch_token_volume c w = fetch_token_volume c ?w1"
    by (rule fetch_token_volume_retry[OF s x(2,3,4,5)])
  moreover have "script ?w1 = pre @ a # rest" "files ?w1 = files w"
    "waits_through (uptime ?w1) pre" using pre by simp_all
  ultimately show ?case using Cons.IH[of ?w1] by auto
qed

lemma fetch_token_data_failed:
  "script w = a # rest \<Longrightarrow> failed a \<Longrightarrow> fst (fetch_token_data c p g w) = Returns PNone"
  by (subst fetch_token_data.simps)
     (auto simp: requests_get_def failed_def Let_def except_request_def request_failure_def
           split: http_outcome.splits)

lemma fetch_token_volume_failed:
  "script w = a # rest \<Longrightarrow> failed a \<Longrightarrow> fst (fetch_token_volume c w) = Returns PNone"
  by (subst fetch_token_volume.simps)
     (auto simp: requests_get_def failed_def Let_def except_request_def request_failure_def
           split: http_outcome.splits)

text \<open>The subscripts of the status 200 branch raise KeyError or TypeError only.\<close>

lemma seq_index_error: "seq_index xs i = Inl e \<Longrightarrow> e = IndexError"
  by (auto simp: seq_index_def split: if_splits)

lemma getitem_str_error: "getitem v (KStr k) = Inl e \<Longrightarrow> e = KeyError \<or> e = TypeError"
  by (cases v) (auto split: option.splits)

lemma daily_volume_error: "daily_volume data = Inl e \<Longrightarrow> e = KeyError \<or> e = TypeError"
  by (auto simp: daily_volume_def split: sum.splits if_splits dest: getitem_str_error)

lemma fetch_token_volume_200:
  "script w = Answer r # rest \<Longrightarrow> status_code r = 200 \<Longrightarrow>
   fst (fetch_token_volume c w) =
     (case json r of
        None \<Rightarrow> Returns PNone
      | Some data \<Rightarrow> (case daily_volume data of Inl e \<Rightarrow> Raises e | Inr v \<Rightarrow> Returns v))"
  by (subst fetch_token_volume.simps)
     (auto simp: requests_get_def Let_def response_json_def except_request_def
           request_failure_def
           split: sum.splits option.splits dest: daily_volume_error)

lemma daily_volume_mapping:
  "volume_mapping data = Some m \<Longrightarrow>
   daily_volume data =
     (if m = [] then Inr (PStr ''null'')
      else case map_of m ''usd'' of None \<Rightarrow> Inl KeyError | Some v \<Rightarrow> Inr v)"
  by (auto simp: volume_mapping_def daily_volume_def split: sum.splits pyval.splits)

lemma numbers_lookup:
  "list_all is_number (map snd m) \<Longrightarrow> map_of m k = Some v \<Longrightarrow> \<exists>i. v = PInt i"
proof -
  assume a: "list_all is_number (map snd m)" and b: "map_of m k = Some v"
  from b have "v \<in> set (map snd m)" by (metis map_of_SomeD set_zip_rightD zip_map_fst_snd)
  with a have "is_number v" by (auto simp: list_all_iff)
  then show ?thesis by (cases v) auto
qed

text \<open>
  Claim C8. A transport failure, or an answer whose status is neither 200 nor 429, makes
  \<^verbatim>\<open>fetch_token_data\<close> (and \<^verbatim>\<open>fetch_token_volume\<close>, which has the same branches)
  return None: no other value, no exception. This holds for the first answer and after
  rate-limit answers that were waited through.
\<close>

theorem fetch_failure_returns_none:
  assumes "script w = pre @ a # rest" and "waits_through (uptime w) pre" and "failed a"
  shows "fst (fetch_token_data vs_currency per_page page w) = Returns PNone \<and>
         fst (fetch_token_volume coin_id w) = Returns PNone"
proof -
  from fetch_token_data_skips[OF assms(2) assms(1)] obtain w0 where
    "script w0 = a # rest" "fetch_token_data vs_currency per_page page w = fetch_token_data vs_currency per_page page w0"
    by blast
  then have d: "fst (fetch_token_data vs_currency per_page page w) = Returns PNone"
    using fetch_token_data_failed[OF _ assms(3)] by simp
  from fetch_token_volume_skips[OF assms(2) assms(1)] obtain w1 where
    "script w1 = a # rest" "fetch_token_volume coin_id w = fetch_token_volume coin_id w1"
    by blast
  then have "fst (fetch_token_volume coin_id w) = Returns PNone"
    using fetch_token_volume_failed[OF _ assms(3)] by simp
  with d show ?thesis by simp
qed

theorem fetch_failure_returns_none_witness:
  "script failing_world = [Answer (wait_answer (Some ''2''))] @ Answer error_answer # [NoConnection] \<and>
   waits_through (uptime failing_world) [Answer (wait_answer (Some ''2''))] \<and>
   failed (Answer error_answer) \<and>
   fst (fetch_token_data (PStr ''usd'') (PInt 250) (PInt 1) failing_world) = Returns PNone \<and>
   fst (fetch_token_volume (PStr ''bitcoin'') failing_world) = Returns PNone"
proof -
  have h1: "script failing_world =
              [Answer (wait_answer (Some ''2''))] @ Answer error_answer # [NoConnection]"
    by (simp add: failing_world_def)
  have h2: "waits_through (uptime failing_world) [Answer (wait_answer (Some ''2''))]"
    by (simp add: failing_world_def wait_answer_def retry_after_seconds_def int_of_str_def
          signed_digits_def strip_def is_space_def is_digit_def digit_val_def)
  have h3: "failed (Answer error_answer)" by (simp add: failed_def error_answer_def)
  show ?thesis using fetch_failure_returns_none[OF h1 h2 h3] h1 h2 h3 by simp
qed

text \<open>
  Claim C2, as stated, fails when the 429 answer carries a \<^verbatim>\<open>Retry-After\<close> header
  that \<^verbatim>\<open>int\<close> cannot read, such as a date: the call raises ValueError, does not sleep,
  does not retry, and the 200 answer is never asked for.
\<close>

theorem retry_after_unreadable_counterexample:
  "status_code (wait_answer (Some http_date)) = 429 \<and> status_code markets_answer = 200 \<and>
   fst (fetch_token_data (PStr ''usd'') (PInt 250) (PInt 1)
          (serving [Answer (wait_answer (Some http_date)), Answer markets_answer])) =
     Raises ValueError \<and>
   script (snd (fetch_token_data (PStr ''usd'') (PInt 250) (PInt 1)
          (serving [Answer (wait_answer (Some http_date)), Answer markets_answer]))) =
     [Answer markets_answer] \<and>
   trace (snd (fetch_token_data (PStr ''usd'') (PInt 250) (PInt 1)
          (serving [Answer (wait_answer (Some http_date)), Answer markets_answer]))) =
     [Request [Lit base_url, Lit ''coins/markets'']
        [(''vs_currency'', PStr ''usd''), (''per_page'', PInt 250), (''page'', PInt 1)]]"
proof -
  have h: "int_of_str http_date = Inl ValueError"
    by (simp add: http_date_def int_of_str_def signed_digits_def strip_def is_space_def
          is_digit_def)
  show ?thesis
    by (subst (1 2 3) fetch_token_data.simps)
       (simp add: serving_def wait_answer_def markets_answer_def requests_get_def
          retry_after_seconds_def h emit_def)
qed

text \<open>
  Claim C2, amended. When \<^verbatim>\<open>fetch_token_data\<close> receives a 429 answer whose
  \<^verbatim>\<open>Retry-After\<close> header is absent or is read by \<^verbatim>\<open>int\<close> as a number of seconds
  that \<^verbatim>\<open>time.sleep\<close> takes (not negative, its deadline within the range of the
  clock), and then a 200 answer with a JSON body, it sleeps for that number of seconds (30
  when the header is absent), then repeats the request with the same arguments, and
  returns the document of the 200 answer. The effects are exactly: the request, the log
  line, the sleep, the same request again; the clocks have advanced by the time slept.
\<close>

theorem retry_after_429_then_200:
  assumes "script w = Answer r1 # Answer r2 # rest"
    and "status_code r1 = 429" and "status_code r2 = 200"
    and "retry_after_seconds r1 = Inr n" and "0 \<le> n"
    and "int (uptime w) + n \<le> 9223372036"
    and "json r2 = Some data"
  shows "fetch_token_data vs_currency per_page page w =
           (Returns data,
            w\<lparr>script := rest, clock := clock w + nat n, uptime := uptime w + nat n,
              trace := trace w @
                [Request [Lit base_url, Lit ''coins/markets'']
                   [(''vs_currency'', vs_currency), (''per_page'', per_page), (''page'', page)],
                 Print [Lit ''Hit rate limit. Retrying after '', Val (PInt n), Lit '' seconds''],
                 Sleep n,
                 Request [Lit base_url, Lit ''coins/markets'']
                   [(''vs_currency'', vs_currency), (''per_page'', per_page), (''page'', page)]]\<rparr>) \<and>
         (retry_after r1 = None \<longrightarrow> n = 30) \<and>
         (\<forall>s. retry_after r1 = Some s \<longrightarrow> int_of_str s = Inr n)"
proof -
  let ?w1 = "w\<lparr>script := Answer r2 # rest, clock := clock w + nat n,
              uptime := uptime w + nat n,
              trace := trace w @
                [Request [Lit base_url, Lit ''coins/markets'']
                   [(''vs_currency'', vs_currency), (''per_page'', per_page), (''page'', page)],
                 Print [Lit ''Hit rate limit. Retrying after '', Val (PInt n), Lit '' seconds''],
                 Sleep n]\<rparr>"
  let ?w2 = "w\<lparr>script := rest, clock := clock w + nat n, uptime := uptime w + nat n,
              trace := trace w @
                [Request [Lit base_url, Lit ''coins/markets'']
                   [(''vs_currency'', vs_currency), (''per_page'', per_page), (''page'', page)],
                 Print [Lit ''Hit rate limit. Retrying after '', Val (PInt n), Lit '' seconds''],
                 Sleep n,
                 Request [Lit base_url, Lit ''coins/markets'']
                   [(''vs_currency'', vs_currency), (''per_page'', per_page), (''page'', page)]]\<rparr>"
  have "fetch_token_data vs_currency per_page page w =
          fetch_token_data vs_currency per_page page ?w1"
    by (rule fetch_token_data_retry[OF assms(1,2,4,5,6)])
  also have "\<dots> = (Returns data, ?w2)"
    using assms(3,7)
    by (subst fetch_token_data.simps)
       (simp add: requests_get_def Let_def emit_def response_json_def)
  finally have run: "fetch_token_data vs_currency per_page page w = (Returns data, ?w2)" .
  have "retry_after r1 = None \<longrightarrow> n = 30"
    using assms(4) by (auto simp: retry_after_seconds_def)
  moreover have "\<forall>s. retry_after r1 = Some s \<longrightarrow> int_of_str s = Inr n"
    using assms(4) by (auto simp: retry_after_seconds_def)
  ultimately show ?thesis using run by blast
qed

theorem retry_after_429_then_200_witness:
  "script (serving [Answer (wait_answer (Some ''60'')), Answer markets_answer]) =
     Answer (wait_answer (Some ''60'')) # Answer markets_answer # [] \<and>
   status_code (wait_answer (Some ''60'')) = 429 \<and> status_code markets_answer = 200 \<and>
   retry_after_seconds (wait_answer (Some ''60'')) = Inr 60 \<and> (0::int) \<le> 60 \<and>
   int (uptime (serving [Answer (wait_answer (Some ''60'')), Answer markets_answer])) + 60
     \<le> 9223372036 \<and>
   json markets_answer \<noteq> None \<and>
   fst (fetch_token_data (PStr ''usd'') (PInt 250) (PInt 1)
          (serving [Answer (wait_answer (Some ''60'')), Answer markets_answer])) =
     Returns (PList [PDict [(''id'', PStr ''bitcoin''), (''name'', PStr ''Bitcoin''),
                            (''total_volume'', PInt 5)]]) \<and>
   clock (snd (fetch_token_data (PStr ''usd'') (PInt 250) (PInt 1)
          (serving [Answer (wait_answer (Some ''60'')), Answer markets_answer]))) = 160 \<and>
   int_of_str ''60'' = Inr 60"
proof -
  let ?w = "serving [Answer (wait_answer (Some ''60'')), Answer markets_answer]"
  let ?d = "PList [PDict [(''id'', PStr ''bitcoin''), (''name'', PStr ''Bitcoin''),
                          (''total_volume'', PInt 5)]]"
  have h1: "script ?w = Answer (wait_answer (Some ''60'')) # Answer markets_answer # []"
    by (simp add: serving_def)
  have h2: "status_code (wait_answer (Some ''60'')) = 429" by (simp add: wait_answer_def)
  have h3: "status_code markets_answer = 200" by (simp add: markets_answer_def)
  have h4: "retry_after_seconds (wait_answer (Some ''60'')) = Inr 60"
    by (simp add: wait_answer_def retry_after_seconds_def int_of_str_def signed_digits_def
          strip_def is_space_def is_digit_def digit_val_def)
  have h5: "(0::int) \<le> 60" by simp
  have h6: "int (uptime ?w) + 60 \<le> 9223372036" by (simp add: serving_def)
  have h7: "json markets_answer = Some ?d" by (simp add: markets_answer_def)
  have c: "clock ?w = 100" by (simp add: serving_def)
  have r: "retry_after (wait_answer (Some ''60'')) = Some ''60''" by (simp add: wait_answer_def)
  show ?thesis
    using retry_after_429_then_200[OF h1 h2 h3 h4 h5 h6 h7, of "PStr ''usd''" "PInt 250" "PInt 1"]
      h1 h2 h3 h4 h6 h7 c r
    by simp
qed

text \<open>
  Claim C3, as stated, fails on 200 answers: when the entry under \<open>usd\<close> is null the
  call returns None, the value that the claim keeps for failures; when a mapping that is
  not empty has no \<open>usd\<close> key the call raises KeyError and returns nothing; and when
  the entry under \<open>usd\<close> is the string \<^verbatim>\<open>"null"\<close> the sentinel is returned for a
  mapping that is not empty.
\<close>

theorem volume_outcomes_counterexample:
  "status_code (detail_answer [(''usd'', PNone)]) = 200 \<and>
   fst (fetch_token_volume (PStr ''bitcoin'')
          (serving [Answer (detail_answer [(''usd'', PNone)])])) = Returns PNone \<and>
   fst (fetch_token_volume (PStr ''bitcoin'')
          (serving [Answer (detail_answer [(''eur'', PInt 7)])])) = Raises KeyError \<and>
   fst (fetch_token_volume (PStr ''bitcoin'')
          (serving [Answer (detail_answer [(''usd'', PStr ''null'')])])) =
     Returns (PStr ''null'')"
proof -
  have s: "script (serving [Answer (detail_answer m)]) = Answer (detail_answer m) # []" for m
    by (simp add: serving_def)
  have st: "status_code (detail_answer m) = 200" for m by (simp add: detail_answer_def)
  have d: "json (detail_answer m) =
             Some (PDict [(''id'', PStr ''bitcoin''),
                          (''market_data'', PDict [(''total_volume'', PDict m)])])" for m
    by (simp add: detail_answer_def)
  show ?thesis
    using fetch_token_volume_200[OF s st, of "PStr ''bitcoin''"]
    by (simp add: st d daily_volume_def)
qed

text \<open>
  Claim C3, amended. Take the answer that ends a call of \<^verbatim>\<open>fetch_token_volume\<close> (the
  first one that is not a rate-limit answer). When it has status 200 and its body decodes
  to a document, the call ends as the lines that read the document do. When the volume
  of that document is a mapping, the call returns the string \<^verbatim>\<open>"null"\<close> when the
  mapping is empty, returns the value stored under \<open>usd\<close> as it is when the mapping is
  not empty and has that key (the number, a zero included, when it is a number), and
  raises KeyError when a mapping that is not empty has no such key. When all values of
  the mapping are numbers, the string is returned exactly when the mapping is empty, and
  None is never returned. None is returned when the answer is a transport failure, has
  another status than 200 and 429, or has status 200 and a body that is not JSON. The
  string, a number and None are pairwise different values.
\<close>

theorem fetch_token_volume_outcomes:
  assumes "script w = pre @ a # rest" and "waits_through (uptime w) pre"
  shows "(\<forall>r data. a = Answer r \<and> status_code r = 200 \<and> json r = Some data \<longrightarrow>
            fst (fetch_token_volume coin_id w) =
              (case daily_volume data of Inl e \<Rightarrow> Raises e | Inr v \<Rightarrow> Returns v) \<and>
            (\<forall>m. volume_mapping data = Some m \<longrightarrow>
               (m = [] \<longrightarrow> fst (fetch_token_volume coin_id w) = Returns (PStr ''null'')) \<and>
               (\<forall>v. m \<noteq> [] \<and> map_of m ''usd'' = Some v \<longrightarrow>
                    fst (fetch_token_volume coin_id w) = Returns v) \<and>
               (m \<noteq> [] \<and> map_of m ''usd'' = None \<longrightarrow>
                    fst (fetch_token_volume coin_id w) = Raises KeyError) \<and>
               (list_all is_number (map snd m) \<longrightarrow>
                  (fst (fetch_token_volume coin_id w) = Returns (PStr ''null'')) = (m = []) \<and>
                  fst (fetch_token_volume coin_id w) \<noteq> Returns PNone))) \<and>
         (\<forall>r. a = Answer r \<and> status_code r = 200 \<and> json r = None \<longrightarrow>
            fst (fetch_token_volume coin_id w) = Returns PNone) \<and>
         (failed a \<longrightarrow> fst (fetch_token_volume coin_id w) = Returns PNone) \<and>
         (\<forall>v. PStr ''null'' \<noteq> PInt v \<and> PInt v \<noteq> PNone \<and> PStr ''null'' \<noteq> PNone)"
proof -
  let ?F = "fst (fetch_token_volume coin_id w)"
  from fetch_token_volume_skips[OF assms(2) assms(1)] obtain w0 where
    w0: "script w0 = a # rest" and eq: "fetch_token_volume coin_id w = fetch_token_volume coin_id w0"
    by blast
  have doc: "?F = (case daily_volume data of Inl e \<Rightarrow> Raises e | Inr v \<Rightarrow> Returns v)"
    if "a = Answer r" "status_code r = 200" "json r = Some data" for r data
  proof -
    have s: "script w0 = Answer r # rest" using w0 that(1) by simp
    show ?thesis using fetch_token_volume_200[OF s that(2), of coin_id] eq that(3) by simp
  qed
  have undecoded: "?F = Returns PNone"
    if "a = Answer r" "status_code r = 200" "json r = None" for r
  proof -
    have s: "script w0 = Answer r # rest" using w0 that(1) by simp
    show ?thesis using fetch_token_volume_200[OF s that(2), of coin_id] eq that(3) by simp
  qed
  have mapping: "(m = [] \<longrightarrow> ?F = Returns (PStr ''null'')) \<and>
               (\<forall>v. m \<noteq> [] \<and> map_of m ''usd'' = Some v \<longrightarrow> ?F = Returns v) \<and>
               (m \<noteq> [] \<and> map_of m ''usd'' = None \<longrightarrow> ?F = Raises KeyError) \<and>
               (list_all is_number (map snd m) \<longrightarrow>
                  (?F = Returns (PStr ''null'')) = (m = []) \<and> ?F \<noteq> Returns PNone)"
    if a: "a = Answer r" and st: "status_code r = 200" and js: "json r = Some data"
      and vm: "volume_mapping data = Some m" for r data m
  proof -
    have res: "?F = (if m = [] then Returns (PStr ''null'')
                     else case map_of m ''usd'' of None \<Rightarrow> Raises KeyError | Some v \<Rightarrow> Returns v)"
      using doc[OF a st js] daily_volume_mapping[OF vm] by (simp split: option.splits)
    have num: "(?F = Returns (PStr ''null'')) = (m = []) \<and> ?F \<noteq> Returns PNone"
      if nums: "list_all is_number (map snd m)"
    proof (cases "m = []")
      case True
      with res show ?thesis by simp
    next
      case False
      show ?thesis
      proof (cases "map_of m ''usd''")
        case None
        with res False show ?thesis by simp
      next
        case (Some x)
        from numbers_lookup[OF nums Some] obtain i where "x = PInt i" by blast
        with res False Some show ?thesis by simp
      qed
    qed
    have a1: "m = [] \<longrightarrow> ?F = Returns (PStr ''null'')" using res by simp
    have a2: "\<forall>v. m \<noteq> [] \<and> map_of m ''usd'' = Some v \<longrightarrow> ?F = Returns v" using res by simp
    have a3: "m \<noteq> [] \<and> map_of m ''usd'' = None \<longrightarrow> ?F = Raises KeyError" using res by simp
    from a1 a2 a3 num show ?thesis by blast
  qed
  have bad: "failed a \<longrightarrow> ?F = Returns PNone"
    using fetch_token_volume_failed[OF w0] eq by simp
  have dist: "\<forall>v. PStr ''null'' \<noteq> PInt v \<and> PInt v \<noteq> PNone \<and> PStr ''null'' \<noteq> PNone" by simp
  from doc mapping undecoded bad dist show ?thesis by blast
qed

theorem fetch_token_volume_outcomes_witness:
  "waits_through 50 [Answer (wait_answer None)] \<and>
   volume_mapping (PDict [(''id'', PStr ''bitcoin''),
                          (''market_data'', PDict [(''total_volume'', PDict [])])]) = Some [] \<and>
   list_all is_number (map snd [(''eur'', PInt 7), (''usd'', PInt 0)]) \<and>
   failed (Answer error_answer) \<and>
   fst (fetch_token_volume (PStr ''bitcoin'')
          (serving [Answer (wait_answer None), Answer (detail_answer [])])) =
     Returns (PStr ''null'') \<and>
   fst (fetch_token_volume (PStr ''bitcoin'')
          (serving [Answer (wait_answer None),
                    Answer (detail_answer [(''eur'', PInt 7), (''usd'', PInt 0)])])) =
     Returns (PInt 0) \<and>
   fst (fetch_token_volume (PStr ''bitcoin'')
          (serving [Answer (wait_answer None), Answer (detail_answer [(''eur'', PInt 7)])])) =
     Raises KeyError \<and>
   fst (fetch_token_volume (PStr ''bitcoin'')
          (serving [Answer (wait_answer None),
                    Answer \<lparr>status_code = 200, retry_after = None, json = None\<rparr>])) =
     Returns PNone \<and>
   fst (fetch_token_volume (PStr ''bitcoin'')
          (serving [Answer (wait_answer None), Answer error_answer])) = Returns PNone"
proof -
  let ?pre = "[Answer (wait_answer None)]"
  let ?m = "[(''eur'', PInt 7), (''usd'', PInt 0)]"
  let ?e = "[(''eur'', PInt 7)]"
  let ?doc = "\<lambda>m. PDict [(''id'', PStr ''bitcoin''),
                         (''market_data'', PDict [(''total_volume'', PDict m)])]"
  let ?u = "\<lparr>status_code = 200, retry_after = None, json = None\<rparr>"
  have p: "waits_through 50 ?pre"
    by (simp add: wait_answer_def retry_after_seconds_def)
  have p': "waits_through (uptime (serving (?pre @ a # []))) ?pre" for a
    using p by (simp add: serving_def)
  have s: "script (serving (?pre @ a # [])) = ?pre @ a # []" for a
    by (simp add: serving_def)
  have st: "status_code (detail_answer m) = 200" for m by (simp add: detail_answer_def)
  have js: "json (detail_answer m) = Some (?doc m)" for m by (simp add: detail_answer_def)
  have v: "volume_mapping (?doc m) = Some m" for m by (simp add: volume_mapping_def)
  have n: "list_all is_number (map snd ?m)" by simp
  have f: "failed (Answer error_answer)" by (simp add: failed_def error_answer_def)
  have a: "fst (fetch_token_volume (PStr ''bitcoin'') (serving (?pre @ Answer (detail_answer []) # []))) =
             Returns (PStr ''null'')"
    using fetch_token_volume_outcomes[OF s p', of "Answer (detail_answer [])" "PStr ''bitcoin''"]
      st js v by (simp add: daily_volume_def)
  have b: "fst (fetch_token_volume (PStr ''bitcoin'') (serving (?pre @ Answer (detail_answer ?m) # []))) =
             Returns (PInt 0)"
    using fetch_token_volume_outcomes[OF s p', of "Answer (detail_answer ?m)" "PStr ''bitcoin''"]
      st[of ?m] js[of ?m] v[of ?m] by (simp add: daily_volume_def)
  have k: "fst (fetch_token_volume (PStr ''bitcoin'') (serving (?pre @ Answer (detail_answer ?e) # []))) =
             Raises KeyError"
    using fetch_token_volume_outcomes[OF s p', of "Answer (detail_answer ?e)" "PStr ''bitcoin''"]
      st[of ?e] js[of ?e] v[of ?e] by (simp add: daily_volume_def)
  have u: "fst (fetch_token_volume (PStr ''bitcoin'') (serving (?pre @ Answer ?u # []))) =
             Returns PNone"
    using fetch_token_volume_outcomes[OF s p', of "Answer ?u" "PStr ''bitcoin''"] by simp
  have c: "fst (fetch_token_volume (PStr ''bitcoin'') (serving (?pre @ Answer error_answer # []))) =
             Returns PNone"
    using fetch_token_volume_outcomes[OF s p', of "Answer error_answer" "PStr ''bitcoin''"] f
    by simp
  show ?thesis using p v[of "[]"] n f a b k u c by simp
qed

section \<open>Purging old volumes\<close>

text \<open>
  Claim C5. When the table \<^verbatim>\<open>token_volumes\<close> exists, \<^verbatim>\<open>delete_old_data\<close> returns
  and keeps exactly the rows whose date is not before the day 21 days ago: a row dated
  exactly 21 days ago stays, every older row goes, in the order they had. The table
  \<^verbatim>\<open>tokens\<close> is unchanged in every file, and so is every other file.
\<close>

theorem purge_stale_volumes:
  assumes "token_volumes (files w db_file) = Some t"
  shows "\<exists>w'. delete_old_data db_file w = (Returns PNone, w') \<and>
           token_volumes (files w' db_file) =
             Some (t\<lparr>vrows := filter (\<lambda>r. today w - 21 \<le> date r) (vrows t)\<rparr>) \<and>
           (\<forall>f. tokens (files w' f) = tokens (files w f)) \<and>
           (\<forall>f. f \<noteq> db_file \<longrightarrow> files w' f = files w f)"
  using assms by (simp add: delete_old_data_def commit_def print_def emit_def not_less)

theorem purge_stale_volumes_witness:
  "token_volumes (files purge_world default_db) =
     Some (spec_volume_table
             [volume CNull ''bitcoin'' (CInt 1) 78, volume CNull ''bitcoin'' (CInt 2) 79,
              volume CNull ''bitcoin'' (CInt 3) 100]) \<and>
   today purge_world = 100 \<and>
   (\<exists>w'. delete_old_data default_db purge_world = (Returns PNone, w') \<and>
      token_volumes (files w' default_db) =
        Some (spec_volume_table
                [volume CNull ''bitcoin'' (CInt 2) 79, volume CNull ''bitcoin'' (CInt 3) 100]) \<and>
      tokens (files w' default_db) = Some [(CText ''bitcoin'', CText ''Bitcoin'')])"
proof -
  have h: "token_volumes (files purge_world default_db) =
     Some (spec_volume_table
             [volume CNull ''bitcoin'' (CInt 1) 78, volume CNull ''bitcoin'' (CInt 2) 79,
              volume CNull ''bitcoin'' (CInt 3) 100])"
    by (simp add: purge_world_def store_def)
  have d: "today purge_world = 100" by (simp add: purge_world_def store_def today_def)
  have t: "tokens (files purge_world default_db) = Some [(CText ''bitcoin'', CText ''Bitcoin'')]"
    by (simp add: purge_world_def store_def)
  show ?thesis
    using purge_stale_volumes[OF h] h d t
    by (auto simp: spec_volume_table_def volume_def)
qed

section \<open>Refreshing the volumes\<close>

lemma tuple_has_no_keys: "getitem (row_value token) (KStr k) = Inl TypeError"
  by (simp add: row_value_def)

lemma update_token_volumes_fails:
  assumes "token_volumes (files w default_db) = Some t" and "vrows t \<noteq> []"
  shows "update_token_volumes db_file w =
           (Raises (if has_id t then TypeError else OperationalError), w)"
proof (cases "has_id t")
  case False
  with assms(1) show ?thesis by (simp add: update_token_volumes_def get_token_volume_def)
next
  case True
  from assms(2) obtain r rs where rs: "vrows t = r # rs" by (cases "vrows t") auto
  have "update_volumes_loop ([rid r] # map (\<lambda>r. [rid r]) rs) conn w = (Raises TypeError, w)" for conn
    by (simp add: tuple_has_no_keys)
  with True assms(1) rs show ?thesis
    by (simp add: update_token_volumes_def get_token_volume_def)
qed

text \<open>
  Claim C9. In every state in which the table \<^verbatim>\<open>token_volumes\<close> of the default file
  holds a row, \<^verbatim>\<open>update_token_volumes\<close> raises an exception that nothing catches,
  before any request, statement or log line. When the table declares a column \<open>id\<close>,
  \<^verbatim>\<open>get_token_volume\<close> returns its rows as tuples, and the first \<^verbatim>\<open>token['id']\<close>,
  which stands before the \<^verbatim>\<open>try\<close>, raises TypeError, as every string subscript of a
  tuple does; when the table has no such column, the select itself raises.
\<close>

theorem refresh_raises_on_stored_volumes:
  assumes "token_volumes (files w default_db) = Some t" and "vrows t \<noteq> []"
  shows "update_token_volumes db_file w =
           (Raises (if has_id t then TypeError else OperationalError), w) \<and>
         (has_id t \<longrightarrow>
            fst (get_token_volume default_db w) = Returns (map (\<lambda>r. [rid r]) (vrows t))) \<and>
         (\<forall>token. getitem (row_value token) (KStr ''id'') = Inl TypeError \<and>
                  getitem (row_value token) (KStr ''total_volume'') = Inl TypeError)"
  using update_token_volumes_fails[OF assms] assms(1)
  by (simp add: tuple_has_no_keys get_token_volume_def)

theorem refresh_raises_on_stored_volumes_witness:
  "token_volumes (files stale_world default_db) =
     Some (id_volume_table [volume (CInt 1) ''bitcoin'' (CInt 100) 100]) \<and>
   vrows (id_volume_table [volume (CInt 1) ''bitcoin'' (CInt 100) 100]) \<noteq> [] \<and>
   has_id (id_volume_table [volume (CInt 1) ''bitcoin'' (CInt 100) 100]) \<and>
   update_token_volumes default_db stale_world = (Raises TypeError, stale_world) \<and>
   fst (get_token_volume default_db stale_world) = Returns [[CInt 1]]"
proof -
  let ?t = "id_volume_table [volume (CInt 1) ''bitcoin'' (CInt 100) 100]"
  have h1: "token_volumes (files stale_world default_db) = Some ?t"
    by (simp add: stale_world_def store_def)
  have h2: "vrows ?t \<noteq> []" by (simp add: id_volume_table_def)
  have h3: "has_id ?t" by (simp add: id_volume_table_def)
  have r: "map (\<lambda>r. [rid r]) (vrows ?t) = [[CInt 1]]" by (simp add: id_volume_table_def volume_def)
  show ?thesis
    using refresh_raises_on_stored_volumes[OF h1 h2, of default_db] h1 h2 h3 by (simp add: r)
qed

text \<open>
  Claim C4, evaluated. The table holds today's row of bitcoin with volume 100 and the
  server would answer 250. The call raises before it asks the server: the row is neither
  updated nor is a row inserted, whether the table declares a column \<open>id\<close> or not.
\<close>

theorem refresh_leaves_row_stale:
  "update_token_volumes default_db stale_world = (Raises TypeError, stale_world) \<and>
   update_token_volumes default_db stale_spec_world = (Raises OperationalError, stale_spec_world) \<and>
   token_volumes (files (snd (update_token_volumes default_db stale_world)) default_db) =
     Some (id_volume_table [volume (CInt 1) ''bitcoin'' (CInt 100) 100]) \<and>
   script (snd (update_token_volumes default_db stale_world)) =
     [Answer (detail_answer [(''usd'', PInt 250)])]"
proof -
  have a: "update_token_volumes default_db stale_world = (Raises TypeError, stale_world)"
    using update_token_volumes_fails[of stale_world
        "id_volume_table [volume (CInt 1) ''bitcoin'' (CInt 100) 100]" default_db]
    by (simp add: stale_world_def store_def id_volume_table_def)
  have b: "update_token_volumes default_db stale_spec_world =
             (Raises OperationalError, stale_spec_world)"
    using update_token_volumes_fails[of stale_spec_world
        "spec_volume_table [volume CNull ''bitcoin'' (CInt 100) 100]" default_db]
    by (simp add: stale_spec_world_def store_def spec_volume_table_def)
  show ?thesis using a b by (simp add: stale_world_def store_def)
qed

text \<open>
  The spike test as the source writes it, taken by itself: no row of yesterday counts as
  0, and the flag condition is that the fetched number is greater than twice yesterday's.
\<close>

lemma spike_test_as_written:
  "yesterdays [] = Inr (PInt 0) \<and> yesterdays ([CInt y] # rs) = Inr (PInt y) \<and>
   times_two (PInt y) = Inr (PInt (y * 2)) \<and>
   greater (PInt v) (PInt (y * 2)) = Inr (y * 2 < v)"
  by (simp add: yesterdays_def row_item_def seq_index_def greater_def)

text \<open>
  Claim C6, evaluated. Yesterday's row of bitcoin has volume 0 and the server would answer
  5, which is more than twice 0. The call raises before the comparison: the flag
  \<^verbatim>\<open>volume is 2x lol\<close> is not printed, and nothing else is.
\<close>

theorem refresh_prints_no_spike_flag:
  "update_token_volumes default_db spike_world = (Raises TypeError, spike_world) \<and>
   Print [Lit ''volume is 2x lol''] \<notin> set (trace (snd (update_token_volumes default_db spike_world))) \<and>
   trace (snd (update_token_volumes default_db spike_world)) = []"
proof -
  have a: "update_token_volumes default_db spike_world = (Raises TypeError, spike_world)"
    using update_token_volumes_fails[of spike_world
        "id_volume_table [volume (CInt 1) ''bitcoin'' (CInt 0) 99]" default_db]
    by (simp add: spike_world_def store_def id_volume_table_def)
  show ?thesis using a by (simp add: spike_world_def store_def)
qed

section \<open>The snapshot of all volumes\<close>

lemma insert_attempts_append:
  "insert_attempts (xs @ ys) = insert_attempts xs @ insert_attempts ys"
  by (induction xs rule: insert_attempts.induct) simp_all

text \<open>How a call of \<^verbatim>\<open>fetch_token_volume\<close> ends on an answer that is not a 429.\<close>

lemma fetch_token_volume_ends:
  assumes "script w = a # s"
  shows "a = NoConnection \<Longrightarrow>
           fetch_token_volume c w =
             (Returns PNone,
              w\<lparr>script := s,
                trace := trace w @ [Request [Lit base_url, Lit ''coins/'', Val c] [],
                                    Print [Lit ''Error fetching data: '', Exc RequestException]]\<rparr>)"
    and "a = Answer r \<Longrightarrow> status_code r = 200 \<Longrightarrow> json r = Some data \<Longrightarrow>
         daily_volume data = Inr v \<Longrightarrow>
           fetch_token_volume c w =
             (Returns v,
              w\<lparr>script := s,
                trace := trace w @ [Request [Lit base_url, Lit ''coins/'', Val c] [],
                                    Print [Val c, Lit '': '', Val v]]\<rparr>)"
    and "a = Answer r \<Longrightarrow> status_code r \<noteq> 200 \<Longrightarrow> status_code r \<noteq> 429 \<Longrightarrow>
           fetch_token_volume c w =
             (Returns PNone,
              w\<lparr>script := s,
                trace := trace w @ [Request [Lit base_url, Lit ''coins/'', Val c] [],
                                    Print [Lit ''API Error. Status Code: '',
                                           Val (PInt (status_code r))]]\<rparr>)"
    and "a = Answer r \<Longrightarrow> status_code r = 200 \<Longrightarrow> json r = None \<Longrightarrow>
           fetch_token_volume c w =
             (Returns PNone,
              w\<lparr>script := s,
                trace := trace w @ [Request [Lit base_url, Lit ''coins/'', Val c] [],
                                    Print [Lit ''Error fetching data: '', Exc JSONDecodeError]]\<rparr>)"
  using assms
  by (subst fetch_token_volume.simps,
      simp add: requests_get_def Let_def emit_def print_def response_json_def
        except_request_def request_failure_def)+

lemma fetch_token_volume_raises:
  "script w = Answer r # s \<Longrightarrow> status_code r = 200 \<Longrightarrow> json r = Some data \<Longrightarrow>
   daily_volume data = Inl e \<Longrightarrow> fst (fetch_token_volume c w) = Raises e"
  using fetch_token_volume_200[of w r s c] by simp

text \<open>
  The handlers' lines are the only events that count as storage errors, and the inserts
  the only ones that count as attempts.
\<close>

lemma not_storage_error [simp]:
  "\<not> is_storage_error (Request u ps)" "\<not> is_storage_error (Sleep n)"
  "\<not> is_storage_error (Execute q xs)" "\<not> is_storage_error (Print [Lit l, Exc e])"
  "\<not> is_storage_error (Print [Val x, Lit l, Val y])"
  "\<not> is_storage_error (Print [Lit l, Val x])"
  "\<not> is_storage_error (Print [Lit l, Val x, Lit m])"
  by (simp_all add: is_storage_error_def)

lemma storage_error_lines [simp]:
  "is_storage_error (Print [Lit ''Database integrity error for '', Val x, Lit '': '',
                            Exc IntegrityError])"
  "is_storage_error (Print [Lit ''Database operational error for '', Val x, Lit '': '',
                            Exc OperationalError])"
  by (simp_all add: is_storage_error_def)

text \<open>
  A fetch that is served returns a bindable value, leaves the files alone and adds
  neither an insert nor a storage error to the trace.
\<close>

lemma fetch_token_volume_serves:
  "serves (uptime w) (Suc n) (script w) \<Longrightarrow>
   \<exists>v w'. fetch_token_volume c w = (Returns v, w') \<and> bindable v \<and>
          serves (uptime w') n (script w') \<and> files w' = files w \<and>
          insert_attempts (trace w') = insert_attempts (trace w) \<and>
          filter is_storage_error (trace w') = filter is_storage_error (trace w)"
proof (induction s \<equiv> "script w" arbitrary: w)
  case Nil
  then show ?case by simp
next
  case (Cons a s)
  from Cons.hyps(2) have sc: "script w = a # s" by simp
  from Cons.prems sc have sv: "serves (uptime w) (Suc n) (a # s)" by simp
  show ?case
  proof (cases a)
    case NoConnection
    with sv have "serves (uptime w) n s" by simp
    with fetch_token_volume_ends(1)[OF sc NoConnection, of c] show ?thesis
      by (simp add: bindable_def insert_attempts_append)
  next
    case (Answer r)
    consider "status_code r = 200" | "status_code r = 429"
      | "status_code r \<noteq> 200" "status_code r \<noteq> 429" by blast
    then show ?thesis
    proof cases
      case 1
      show ?thesis
      proof (cases "json r")
        case None
        with sv Answer 1 have "serves (uptime w) n s" by simp
        with fetch_token_volume_ends(4)[OF sc Answer 1 None, of c] show ?thesis
          by (simp add: bindable_def insert_attempts_append)
      next
        case (Some data)
        with sv Answer 1 obtain v where v: "daily_volume data = Inr v" "bindable v"
          "serves (uptime w) n s" by (auto split: sum.splits)
        with fetch_token_volume_ends(2)[OF sc Answer 1 Some v(1), of c] show ?thesis
          by (simp add: insert_attempts_append)
      qed
    next
      case 2
      with sv Answer obtain k where
        k: "retry_after_seconds r = Inr k" "0 \<le> k" "int (uptime w) + k \<le> 9223372036"
        and rest: "serves (uptime w + nat k) (Suc n) s" by (auto split: sum.splits)
      let ?w1 = "w\<lparr>script := s, clock := clock w + nat k, uptime := uptime w + nat k,
              trace := trace w @
                [Request [Lit base_url, Lit ''coins/'', Val c] [],
                 Print [Lit ''Hit rate limit. Retrying after '', Val (PInt k), Lit '' seconds''],
                 Sleep k]\<rparr>"
      have sc': "script w = Answer r # s" using sc Answer by simp
      have step: "fetch_token_volume c w = fetch_token_volume c ?w1"
        by (rule fetch_token_volume_retry[OF sc' 2 k])
      have "s = script ?w1" by simp
      moreover have "serves (uptime ?w1) (Suc n) (script ?w1)" using rest by simp
      ultimately obtain v w' where
        "fetch_token_volume c ?w1 = (Returns v, w')" "bindable v"
        "serves (uptime w') n (script w')" "files w' = files ?w1"
        "insert_attempts (trace w') = insert_attempts (trace ?w1)"
        "filter is_storage_error (trace w') = filter is_storage_error (trace ?w1)"
        using Cons.hyps(1)[of ?w1] by blast
      with step show ?thesis by (simp add: insert_attempts_append)
    next
      case 3
      with sv Answer have "serves (uptime w) n s" by simp
      with fetch_token_volume_ends(3)[OF sc Answer 3, of c] show ?thesis
        by (simp add: bindable_def insert_attempts_append)
    qed
  qed
qed

text \<open>
  Conversely, a fetch that returns a bindable value was served: \<open>serves\<close> asks no more
  of the answers than that each fetch in turn returns such a value.
\<close>

lemma fetch_token_volume_429_raises:
  assumes "script w = Answer r # s" and "status_code r = 429"
    and "retry_after_seconds r = Inl e \<or>
         (\<exists>k. retry_after_seconds r = Inr k \<and> \<not> (0 \<le> k \<and> int (uptime w) + k \<le> 9223372036))"
  shows "\<exists>e' w1. fetch_token_volume c w = (Raises e', w1)"
  using assms
  by (subst fetch_token_volume.simps)
     (auto simp: requests_get_def Let_def emit_def print_def time_sleep_def)

lemma fetch_token_volume_served:
  "fetch_token_volume c w = (Returns v, w') \<Longrightarrow> bindable v \<Longrightarrow>
   serves (uptime w') n (script w') \<Longrightarrow> serves (uptime w) (Suc n) (script w)"
proof (induction s \<equiv> "script w" arbitrary: w)
  case Nil
  from Nil.hyps have "fetch_token_volume c w = (Pending, w)"
    by (subst fetch_token_volume.simps) (simp add: requests_get_def)
  with Nil.prems(1) show ?case by simp
next
  case (Cons a s)
  from Cons.hyps(2) have sc: "script w = a # s" by simp
  note ret = Cons.prems(1) and bv = Cons.prems(2) and sv = Cons.prems(3)
  show ?case
  proof (cases a)
    case NoConnection
    from fetch_token_volume_ends(1)[OF sc NoConnection, of c] ret sv
    have "serves (uptime w) n s" by auto
    with sc NoConnection show ?thesis by simp
  next
    case (Answer r)
    have sc': "script w = Answer r # s" using sc Answer by simp
    consider "status_code r = 200" | "status_code r = 429"
      | "status_code r \<noteq> 200" "status_code r \<noteq> 429" by blast
    then show ?thesis
    proof cases
      case 1
      show ?thesis
      proof (cases "json r")
        case None
        from fetch_token_volume_ends(4)[OF sc Answer 1 None, of c] ret sv
        have "serves (uptime w) n s" by auto
        with sc' 1 None show ?thesis by simp
      next
        case (Some data)
        show ?thesis
        proof (cases "daily_volume data")
          case (Inl e)
          from fetch_token_volume_raises[OF sc' 1 Some Inl, of c] ret show ?thesis by simp
        next
          case (Inr v0)
          from fetch_token_volume_ends(2)[OF sc Answer 1 Some Inr, of c] ret sv
          have "v0 = v" "serves (uptime w) n s" by auto
          with sc' 1 Some Inr bv show ?thesis by simp
        qed
      qed
    next
      case 2
      show ?thesis
      proof (cases "retry_after_seconds r")
        case (Inl e)
        from fetch_token_volume_429_raises[OF sc' 2, of e c] Inl ret show ?thesis by auto
      next
        case (Inr k)
        show ?thesis
        proof (cases "0 \<le> k \<and> int (uptime w) + k \<le> 9223372036")
          case False
          with fetch_token_volume_429_raises[OF sc' 2, of undefined c] Inr ret show ?thesis
            by auto
        next
          case True
          let ?w1 = "w\<lparr>script := s, clock := clock w + nat k, uptime := uptime w + nat k,
              trace := trace w @
                [Request [Lit base_url, Lit ''coins/'', Val c] [],
                 Print [Lit ''Hit rate limit. Retrying after '', Val (PInt k), Lit '' seconds''],
                 Sleep k]\<rparr>"
          from True have k: "0 \<le> k" "int (uptime w) + k \<le> 9223372036" by simp_all
          have step: "fetch_token_volume c w = fetch_token_volume c ?w1"
            by (rule fetch_token_volume_retry[OF sc' 2 Inr k])
          have "s = script ?w1" by simp
          from Cons.hyps(1)[OF this _ bv sv] step ret
          have "serves (uptime ?w1) (Suc n) (script ?w1)" by simp
          with sc' 2 Inr True show ?thesis by simp
        qed
      qed
    next
      case 3
      from fetch_token_volume_ends(3)[OF sc Answer 3, of c] ret sv
      have "serves (uptime w) n s" by auto
      with sc' 3 show ?thesis by simp
    qed
  qed
qed

text \<open>What becomes of an insert whose parameters can be bound.\<close>

lemma insert_volume_cases:
  assumes "bindable v"
  shows "insert_volume (PStr s) v d db = Inl OperationalError \<or>
         insert_volume (PStr s) v d db = Inl IntegrityError \<or>
         (\<exists>db'. insert_volume (PStr s) v d db = Inr db' \<and> tokens db' = tokens db \<and>
                volume_count db' = Suc (volume_count db))"
proof (cases "token_volumes db")
  case None
  then show ?thesis by (simp add: insert_volume_def)
next
  case (Some t)
  from assms obtain cv where cv: "bind_param v = Inr cv"
    by (auto simp: bindable_def split: sum.splits)
  let ?raw = "\<lparr>rid = CNull, token_id = CText s, total_volume = cv, date = d\<rparr>"
  show ?thesis
  proof (cases "admit t (vrows t) ?raw")
    case None
    with Some cv show ?thesis by (simp add: insert_volume_def)
  next
    case (Some r)
    let ?db = "db\<lparr>token_volumes := Some (t\<lparr>vrows := vrows t @ [r]\<rparr>)\<rparr>"
    have "insert_volume (PStr s) v d db = Inr ?db"
      using \<open>token_volumes db = Some t\<close> cv Some by (simp add: insert_volume_def)
    moreover have "tokens ?db = tokens db" by simp
    moreover have "volume_count ?db = Suc (volume_count db)"
      using \<open>token_volumes db = Some t\<close> by (simp add: volume_count_def)
    ultimately show ?thesis by blast
  qed
qed

text \<open>
  The loop over the ids: one insert per id, and every insert ends as a new row or as a
  logged storage error.
\<close>

lemma save_volumes_loop_serves:
  "serves (uptime w) (length ids) (script w) \<Longrightarrow>
   \<exists>db' w'. save_volumes_loop (map (\<lambda>c. [c]) ids) db w = (Returns db', w') \<and>
      tokens db' = tokens db \<and> files w' = files w \<and>
      map hd (insert_attempts (trace w')) =
        map hd (insert_attempts (trace w)) @ map (\<lambda>c. PStr (str_of_cell c)) ids \<and>
      volume_count db' + length (filter is_storage_error (trace w')) =
        volume_count db + length (filter is_storage_error (trace w)) + length ids"
proof (induction ids arbitrary: db w)
  case Nil
  then show ?case by simp
next
  case (Cons c ids)
  let ?tid = "PStr (str_of_cell c)"
  from Cons.prems have "serves (uptime w) (Suc (length ids)) (script w)" by simp
  from fetch_token_volume_serves[OF this, of ?tid] obtain v w1 where
    f: "fetch_token_volume ?tid w = (Returns v, w1)" and bv: "bindable v"
    and sv: "serves (uptime w1) (length ids) (script w1)" and fl: "files w1 = files w"
    and ia: "insert_attempts (trace w1) = insert_attempts (trace w)"
    and se: "filter is_storage_error (trace w1) = filter is_storage_error (trace w)" by blast
  let ?w2 = "emit (Execute insert_volume_stmt [?tid, v]) w1"
  have ia2: "map hd (insert_attempts (trace ?w2)) = map hd (insert_attempts (trace w)) @ [?tid]"
    using ia by (simp add: emit_def insert_attempts_append)
  have se2: "filter is_storage_error (trace ?w2) = filter is_storage_error (trace w)"
    using se by (simp add: emit_def)
  have s2: "script ?w2 = script w1" "files ?w2 = files w" "uptime ?w2 = uptime w1"
    using fl by (simp_all add: emit_def)
  have it: "row_item [c] 0 = Inr c" by (simp add: row_item_def seq_index_def)
  from insert_volume_cases[OF bv, of "str_of_cell c" "today ?w2" db]
  consider (op) "insert_volume ?tid v (today ?w2) db = Inl OperationalError"
    | (ig) "insert_volume ?tid v (today ?w2) db = Inl IntegrityError"
    | (ok) db1 where "insert_volume ?tid v (today ?w2) db = Inr db1" "tokens db1 = tokens db"
        "volume_count db1 = Suc (volume_count db)"
    by blast
  then show ?case
  proof cases
    case op
    let ?w3 = "print [Lit ''Database operational error for '', Val ?tid, Lit '': '',
                      Exc OperationalError] ?w2"
    have step: "save_volumes_loop (map (\<lambda>c. [c]) (c # ids)) db w =
                  save_volumes_loop (map (\<lambda>c. [c]) ids) db ?w3"
      using f op it by (simp add: Let_def)
    have p: "script ?w3 = script w1" "files ?w3 = files w" "uptime ?w3 = uptime w1"
      "map hd (insert_attempts (trace ?w3)) = map hd (insert_attempts (trace w)) @ [?tid]"
      "length (filter is_storage_error (trace ?w3)) =
         Suc (length (filter is_storage_error (trace w)))"
      using s2 ia2 se2 by (simp_all add: print_def emit_def insert_attempts_append)
    from sv p(1,3) have "serves (uptime ?w3) (length ids) (script ?w3)" by simp
    from Cons.IH[OF this, of db] obtain db' w' where
      "save_volumes_loop (map (\<lambda>c. [c]) ids) db ?w3 = (Returns db', w')"
      "tokens db' = tokens db" "files w' = files ?w3"
      "map hd (insert_attempts (trace w')) =
         map hd (insert_attempts (trace ?w3)) @ map (\<lambda>c. PStr (str_of_cell c)) ids"
      "volume_count db' + length (filter is_storage_error (trace w')) =
         volume_count db + length (filter is_storage_error (trace ?w3)) + length ids" by blast
    with step p(2,4,5) show ?thesis by simp
  next
    case ig
    let ?w3 = "print [Lit ''Database integrity error for '', Val ?tid, Lit '': '',
                      Exc IntegrityError] ?w2"
    have step: "save_volumes_loop (map (\<lambda>c. [c]) (c # ids)) db w =
                  save_volumes_loop (map (\<lambda>c. [c]) ids) db ?w3"
      using f ig it by (simp add: Let_def)
    have p: "script ?w3 = script w1" "files ?w3 = files w" "uptime ?w3 = uptime w1"
      "map hd (insert_attempts (trace ?w3)) = map hd (insert_attempts (trace w)) @ [?tid]"
      "length (filter is_storage_error (trace ?w3)) =
         Suc (length (filter is_storage_error (trace w)))"
      using s2 ia2 se2 by (simp_all add: print_def emit_def insert_attempts_append)
    from sv p(1,3) have "serves (uptime ?w3) (length ids) (script ?w3)" by simp
    from Cons.IH[OF this, of db] obtain db' w' where
      "save_volumes_loop (map (\<lambda>c. [c]) ids) db ?w3 = (Returns db', w')"
      "tokens db' = tokens db" "files w' = files ?w3"
      "map hd (insert_attempts (trace w')) =
         map hd (insert_attempts (trace ?w3)) @ map (\<lambda>c. PStr (str_of_cell c)) ids"
      "volume_count db' + length (filter is_storage_error (trace w')) =
         volume_count db + length (filter is_storage_error (trace ?w3)) + length ids" by blast
    with step p(2,4,5) show ?thesis by simp
  next
    case ok
    have step: "save_volumes_loop (map (\<lambda>c. [c]) (c # ids)) db w =
                  save_volumes_loop (map (\<lambda>c. [c]) ids) db1 ?w2"
      using f ok(1) it by (simp add: Let_def)
    from sv s2(1,3) have "serves (uptime ?w2) (length ids) (script ?w2)" by simp
    from Cons.IH[OF this, of db1] obtain db' w' where
      "save_volumes_loop (map (\<lambda>c. [c]) ids) db1 ?w2 = (Returns db', w')"
      "tokens db' = tokens db1" "files w' = files ?w2"
      "map hd (insert_attempts (trace w')) =
         map hd (insert_attempts (trace ?w2)) @ map (\<lambda>c. PStr (str_of_cell c)) ids"
      "volume_count db' + length (filter is_storage_error (trace w')) =
         volume_count db1 + length (filter is_storage_error (trace ?w2)) + length ids" by blast
    with step s2(2) ia2 se2 ok(2,3) show ?thesis by simp
  qed
qed

text \<open>
  Claim C7, as stated, fails on an empty token list: the guard at the head of
  \<^verbatim>\<open>save_token_volumes\<close> prints a line and returns None, not the completion string.
\<close>

theorem snapshot_empty_list_counterexample:
  "tokens (files (store [] None []) default_db) = Some [] \<and>
   fst (save_token_volumes default_db (store [] None [])) = Returns PNone \<and>
   fst (save_token_volumes default_db (store [] None [])) \<noteq>
     Returns (PStr ''Token volume data saved.'')"
  by (simp add: store_def save_token_volumes_def get_token_list_def index_order_def)

text \<open>
  Claim C7, amended. When the table \<^verbatim>\<open>tokens\<close> exists and every fetch of a volume
  returns a value that can be bound, \<^verbatim>\<open>save_token_volumes\<close> returns: the completion
  string when a token is stored; None when none is, and then all it does is print that no
  tokens were found. It hands the connection exactly one insert per stored token, with the
  token's id as first parameter, the ids as \<^verbatim>\<open>get_token_list\<close> gives them. Every
  insert ends as a new row of the table or as a line of one of the two handlers, after
  which the loop goes on: rows added and storage errors logged are together as many as
  the tokens. This holds for every database, also when the table of volumes is missing
  (OperationalError on each row) or rejects rows (IntegrityError). The table
  \<^verbatim>\<open>tokens\<close> is left as it was.
\<close>

theorem snapshot_attempts_every_token:
  assumes "tokens (files w default_db) = Some rows"
    and "serves (uptime w) (length rows) (script w)"
  shows "\<exists>w'. save_token_volumes db w =
                (Returns (if rows = [] then PNone else PStr ''Token volume data saved.''), w') \<and>
              (rows = [] \<longrightarrow>
                 w' = print [Lit ''No tokens found in the token list. Skipping saving volumes''] w) \<and>
              map hd (insert_attempts (trace w')) =
                map hd (insert_attempts (trace w)) @
                map (\<lambda>c. PStr (str_of_cell c)) (index_order (map fst rows)) \<and>
              volume_count (files w' db) + length (filter is_storage_error (trace w')) =
                volume_count (files w db) + length (filter is_storage_error (trace w)) +
                length rows \<and>
              tokens (files w' db) = tokens (files w db)"
proof (cases "rows = []")
  case True
  with assms(1) show ?thesis
    by (simp add: save_token_volumes_def get_token_list_def print_def emit_def
          insert_attempts_append index_order_def is_storage_error_def)
next
  case False
  let ?ids = "index_order (map fst rows)"
  have len: "length ?ids = length rows" by (simp add: length_index_order)
  then have ne: "?ids \<noteq> []" using False by auto
  from assms(2) len have "serves (uptime w) (length ?ids) (script w)" by simp
  from save_volumes_loop_serves[OF this, of "files w db"] obtain db' w1 where
    l: "save_volumes_loop (map (\<lambda>c. [c]) ?ids) (files w db) w = (Returns db', w1)"
    and t: "tokens db' = tokens (files w db)"
    and a: "map hd (insert_attempts (trace w1)) =
        map hd (insert_attempts (trace w)) @ map (\<lambda>c. PStr (str_of_cell c)) ?ids"
    and n: "volume_count db' + length (filter is_storage_error (trace w1)) =
        volume_count (files w db) + length (filter is_storage_error (trace w)) + length ?ids"
    by blast
  have run: "save_token_volumes db w =
               (Returns (PStr ''Token volume data saved.''), commit db db' w1)"
    using assms(1) ne l by (simp add: save_token_volumes_def get_token_list_def)
  have c: "trace (commit db db' w1) = trace w1" "files (commit db db' w1) db = db'"
    by (simp_all add: commit_def)
  show ?thesis using run c a n t len False by simp
qed

theorem snapshot_attempts_every_token_witness:
  "tokens (files snapshot_world default_db) =
     Some [(CText ''ethereum'', CText ''Ethereum''), (CText ''bitcoin'', CText ''Bitcoin'')] \<and>
   serves (uptime snapshot_world) 2 (script snapshot_world) \<and>
   (\<exists>w'. save_token_volumes default_db snapshot_world =
            (Returns (PStr ''Token volume data saved.''), w') \<and>
          map hd (insert_attempts (trace w')) = [PStr ''bitcoin'', PStr ''ethereum''] \<and>
          volume_count (files w' default_db) + length (filter is_storage_error (trace w')) = 2)"
proof -
  let ?rows = "[(CText ''ethereum'', CText ''Ethereum''), (CText ''bitcoin'', CText ''Bitcoin'')]"
  have h1: "tokens (files snapshot_world default_db) = Some ?rows"
    by (simp add: snapshot_world_def store_def)
  have h2': "serves (uptime snapshot_world) (length ?rows) (script snapshot_world)"
    by (simp add: snapshot_world_def store_def detail_answer_def daily_volume_def bindable_def)
  have h2: "serves (uptime snapshot_world) 2 (script snapshot_world)"
    using h2' by (simp add: numeral_2_eq_2)
  have t: "trace snapshot_world = []" by (simp add: snapshot_world_def store_def)
  have v: "volume_count (files snapshot_world default_db) = 0"
    by (simp add: snapshot_world_def store_def volume_count_def strict_volume_table_def)
  have o: "index_order [CText ''ethereum'', CText ''bitcoin''] =
             [CText ''bitcoin'', CText ''ethereum'']"
    by (simp add: index_order_def)
  show ?thesis
    using snapshot_attempts_every_token[OF h1 h2', of default_db] h1 h2
    by (auto simp: t v o numeral_2_eq_2)
qed

text \<open>
  The same run, evaluated: bitcoin comes first, its fetch fails and its NULL volume is
  rejected by the table, which is logged; the loop goes on and stores the volume of
  ethereum.
\<close>

lemma snapshot_world_run:
  "fst (save_token_volumes default_db snapshot_world) = Returns (PStr ''Token volume data saved.'') \<and>
   token_volumes (files (snd (save_token_volumes default_db snapshot_world)) default_db) =
     Some (strict_volume_table [volume CNull ''ethereum'' (CInt 7) 100]) \<and>
   Print [Lit ''Database integrity error for '', Val (PStr ''bitcoin''), Lit '': '',
          Exc IntegrityError]
     \<in> set (trace (snd (save_token_volumes default_db snapshot_world)))"
  by (simp add: save_token_volumes_def get_token_list_def snapshot_world_def store_def
        row_item_def seq_index_def fetch_token_volume.simps requests_get_def daily_volume_def
        detail_answer_def Let_def insert_volume_def strict_volume_table_def today_def emit_def
        print_def commit_def volume_def index_order_def response_json_def except_request_def
        request_failure_def)

text \<open>
  Claim C10. In the loop of \<^verbatim>\<open>save_token_volumes\<close>, when the fetch for a token returns
  None (a failed fetch) or the string \<^verbatim>\<open>"null"\<close> (no volume data) and the table of
  volumes accepts the row as it is bound, the iteration is not skipped: the row of that
  token is added with NULL, respectively the text \<open>null\<close>, as its volume, and the loop
  goes on with the rest. With one stored token this is what the function commits.
\<close>

theorem snapshot_stores_failed_fetch:
  assumes "fetch_token_volume (PStr (str_of_cell c)) w = (Returns v, w1)"
    and "v = PNone \<or> v = PStr ''null''"
    and "token_volumes db = Some t"
    and "admit t (vrows t)
           \<lparr>rid = CNull, token_id = CText (str_of_cell c),
            total_volume = (if v = PNone then CNull else CText ''null''), date = today w1\<rparr> =
         Some \<lparr>rid = CNull, token_id = CText (str_of_cell c),
            total_volume = (if v = PNone then CNull else CText ''null''), date = today w1\<rparr>"
  shows "save_volumes_loop ([c] # rest) db w =
           save_volumes_loop rest
             (db\<lparr>token_volumes := Some (t\<lparr>vrows := vrows t @
                [\<lparr>rid = CNull, token_id = CText (str_of_cell c),
                  total_volume = (if v = PNone then CNull else CText ''null''),
                  date = today w1\<rparr>]\<rparr>)\<rparr>)
             (emit (Execute insert_volume_stmt [PStr (str_of_cell c), v]) w1) \<and>
         (tokens (files w default_db) = Some [(c, name)] \<and> files w db_file = db \<longrightarrow>
            save_token_volumes db_file w =
              (Returns (PStr ''Token volume data saved.''),
               commit db_file
                 (db\<lparr>token_volumes := Some (t\<lparr>vrows := vrows t @
                    [\<lparr>rid = CNull, token_id = CText (str_of_cell c),
                      total_volume = (if v = PNone then CNull else CText ''null''),
                      date = today w1\<rparr>]\<rparr>)\<rparr>)
                 (emit (Execute insert_volume_stmt [PStr (str_of_cell c), v]) w1)))"
proof -
  let ?raw = "\<lparr>rid = CNull, token_id = CText (str_of_cell c),
                total_volume = (if v = PNone then CNull else CText ''null''), date = today w1\<rparr>"
  let ?w2 = "emit (Execute insert_volume_stmt [PStr (str_of_cell c), v]) w1"
  let ?db = "db\<lparr>token_volumes := Some (t\<lparr>vrows := vrows t @ [?raw]\<rparr>)\<rparr>"
  have d: "today ?w2 = today w1" by (simp add: emit_def today_def)
  have b: "bind_param v = Inr (if v = PNone then CNull else CText ''null'')"
    using assms(2) by auto
  have ins: "insert_volume (PStr (str_of_cell c)) v (today ?w2) db = Inr ?db"
    using assms(3) assms(4) b by (simp add: insert_volume_def d)
  have it: "row_item [c] 0 = Inr c" by (simp add: row_item_def seq_index_def)
  have step: "save_volumes_loop ([c] # rest) db w = save_volumes_loop rest ?db ?w2" for rest
    using assms(1) ins it by (simp add: Let_def)
  have "save_token_volumes db_file w =
          (Returns (PStr ''Token volume data saved.''), commit db_file ?db ?w2)"
    if "tokens (files w default_db) = Some [(c, name)]" "files w db_file = db"
  proof -
    have l: "save_volumes_loop [[c]] db w = (Returns ?db, ?w2)" using step[of "[]"] by simp
    show ?thesis
      using that l
      by (simp add: save_token_volumes_def get_token_list_def index_order_def
            del: save_volumes_loop.simps)
  qed
  with step[of rest] show ?thesis by blast
qed

theorem snapshot_stores_failed_fetch_witness:
  "fst (fetch_token_volume (PStr ''bitcoin'') failed_fetch_world) = Returns PNone \<and>
   fst (fetch_token_volume (PStr ''bitcoin'') no_data_world) = Returns (PStr ''null'') \<and>
   fst (save_token_volumes default_db failed_fetch_world) =
     Returns (PStr ''Token volume data saved.'') \<and>
   token_volumes (files (snd (save_token_volumes default_db failed_fetch_world)) default_db) =
     Some (spec_volume_table [volume CNull ''bitcoin'' CNull 100]) \<and>
   fst (save_token_volumes default_db no_data_world) =
     Returns (PStr ''Token volume data saved.'') \<and>
   token_volumes (files (snd (save_token_volumes default_db no_data_world)) default_db) =
     Some (spec_volume_table [volume CNull ''bitcoin'' (CText ''null'') 100])"
proof -
  let ?t = "spec_volume_table []"
  let ?db = "\<lparr>tokens = Some [(CText ''bitcoin'', CText ''Bitcoin'')], token_volumes = Some ?t\<rparr>"
  have run: "fst (save_token_volumes default_db w) = Returns (PStr ''Token volume data saved.'') \<and>
             token_volumes (files (snd (save_token_volumes default_db w)) default_db) =
               Some (spec_volume_table
                       [volume CNull ''bitcoin'' (if v = PNone then CNull else CText ''null'') 100])"
    if f: "fetch_token_volume (PStr ''bitcoin'') w = (Returns v, w1)"
      and v: "v = PNone \<or> v = PStr ''null''" and d: "today w1 = 100"
      and db: "files w default_db = ?db" for w w1 v
  proof -
    have h1: "fetch_token_volume (PStr (str_of_cell (CText ''bitcoin''))) w = (Returns v, w1)"
      using f by simp
    have h3: "token_volumes ?db = Some ?t" by simp
    have h4: "admit ?t (vrows ?t)
           \<lparr>rid = CNull, token_id = CText (str_of_cell (CText ''bitcoin'')),
            total_volume = (if v = PNone then CNull else CText ''null''), date = today w1\<rparr> =
         Some \<lparr>rid = CNull, token_id = CText (str_of_cell (CText ''bitcoin'')),
            total_volume = (if v = PNone then CNull else CText ''null''), date = today w1\<rparr>"
      by (simp add: spec_volume_table_def)
    have tk: "tokens (files w default_db) = Some [(CText ''bitcoin'', CText ''Bitcoin'')]"
      using db by simp
    from snapshot_stores_failed_fetch[OF h1 v h3 h4, of "[]" "CText ''Bitcoin''" default_db] tk db
    have "save_token_volumes default_db w =
            (Returns (PStr ''Token volume data saved.''),
             commit default_db
               (?db\<lparr>token_volumes := Some (?t\<lparr>vrows := vrows ?t @
                  [\<lparr>rid = CNull, token_id = CText (str_of_cell (CText ''bitcoin'')),
                    total_volume = (if v = PNone then CNull else CText ''null''),
                    date = today w1\<rparr>]\<rparr>)\<rparr>)
               (emit (Execute insert_volume_stmt [PStr (str_of_cell (CText ''bitcoin'')), v]) w1))"
      by blast
    then show ?thesis
      by (simp add: commit_def emit_def spec_volume_table_def volume_def d)
  qed
  have s1: "script failed_fetch_world = NoConnection # []"
    by (simp add: failed_fetch_world_def store_def)
  have s2: "script no_data_world = Answer (detail_answer []) # []"
    by (simp add: no_data_world_def store_def)
  have js: "json (detail_answer []) =
              Some (PDict [(''id'', PStr ''bitcoin''),
                           (''market_data'', PDict [(''total_volume'', PDict [])])])"
    by (simp add: detail_answer_def)
  have dv: "daily_volume (PDict [(''id'', PStr ''bitcoin''),
                                 (''market_data'', PDict [(''total_volume'', PDict [])])]) =
              Inr (PStr ''null'')"
    by (simp add: daily_volume_def)
  have st: "status_code (detail_answer []) = 200" by (simp add: detail_answer_def)
  note f1 = fetch_token_volume_ends(1)[OF s1 refl, of "PStr ''bitcoin''"]
  note f2 = fetch_token_volume_ends(2)[OF s2 refl st js dv, of "PStr ''bitcoin''"]
  have r1: "fst (save_token_volumes default_db failed_fetch_world) =
              Returns (PStr ''Token volume data saved.'') \<and>
            token_volumes (files (snd (save_token_volumes default_db failed_fetch_world)) default_db) =
              Some (spec_volume_table [volume CNull ''bitcoin'' CNull 100])"
    using run[OF f1] by (simp add: failed_fetch_world_def store_def today_def)
  have r2: "fst (save_token_volumes default_db no_data_world) =
              Returns (PStr ''Token volume data saved.'') \<and>
            token_volumes (files (snd (save_token_volumes default_db no_data_world)) default_db) =
              Some (spec_volume_table [volume CNull ''bitcoin'' (CText ''null'') 100])"
    using run[OF f2] by (simp add: no_data_world_def store_def today_def)
  show ?thesis using r1 r2 f1 f2 by simp
qed

end
